theory Spec2Isabelle
  imports Main "HOL-Library.AList" "HOL-Library.Sublist" "HOL-Library.Multiset"
begin

section \<open>Python values used by the organizer\<close>

text \<open>
  Strings are lists of characters with code points 0..255; \<open>bytes\<close> are lists of
  octets. Python's \<open>str.encode()\<close> is UTF-8: a code point below 128 is one octet, the
  others (128..255) are two.
\<close>

type_synonym bytes = "char list"

definition encode_char :: "char \<Rightarrow> bytes" where
  "encode_char c =
     (let n = (of_char c :: nat)
      in if n < 128 then [c] else [char_of (192 + n div 64), char_of (128 + n mod 64)])"

definition encode :: "string \<Rightarrow> bytes" where
  "encode s = concat (map encode_char s)"

text \<open>\<open>str(n)\<close> for a non-negative integer, and for any integer.\<close>

definition digit_char :: "nat \<Rightarrow> char" where
  "digit_char d = ''0123456789'' ! d"

fun str_nat :: "nat \<Rightarrow> string" where
  "str_nat n = (if n < 10 then [digit_char n] else str_nat (n div 10) @ [digit_char (n mod 10)])"

declare str_nat.simps [simp del]

definition str_int :: "int \<Rightarrow> string" where
  "str_int i = (if i < 0 then CHR ''-'' # str_nat (nat (- i)) else str_nat (nat i))"

text \<open>
  \<open>repr(s)\<close> for a string: single quotes unless the string holds a single quote and
  no double quote; the quote in use and the backslash are escaped, tab, newline and
  carriage return are written with their letters, and every other character that
  \<open>str.isprintable\<close> rejects as \<open>\\xNN\<close>.
\<close>

definition hex_digit :: "nat \<Rightarrow> char" where
  "hex_digit d = ''0123456789abcdef'' ! d"

definition isprintable :: "char \<Rightarrow> bool" where
  "isprintable c =
     (let n = (of_char c :: nat) in (32 \<le> n \<and> n \<le> 126) \<or> (161 \<le> n \<and> n \<noteq> 173))"

definition repr_char :: "char \<Rightarrow> char \<Rightarrow> string" where
  "repr_char quote c =
     (if c = quote \<or> c = CHR 0x5C then [CHR 0x5C, c]
      else if c = CHR 0x09 then [CHR 0x5C, CHR ''t'']
      else if c = CHR 0x0A then [CHR 0x5C, CHR ''n'']
      else if c = CHR 0x0D then [CHR 0x5C, CHR ''r'']
      else if isprintable c then [c]
      else [CHR 0x5C, CHR ''x'', hex_digit ((of_char c :: nat) div 16),
            hex_digit ((of_char c :: nat) mod 16)])"

definition repr_str :: "string \<Rightarrow> string" where
  "repr_str s =
     (let quote = (if CHR 0x27 \<in> set s \<and> CHR 0x22 \<notin> set s then CHR 0x22 else CHR 0x27)
      in quote # concat (map (repr_char quote) s) @ [quote])"

text \<open>
  An exception is its class name and the text \<open>str(e)\<close> gives. A call that may raise
  returns \<open>exn + 'a\<close>, \<open>Inl\<close> the exception.
\<close>

datatype exn = Exn string string

fun str_exn :: "exn \<Rightarrow> string" where
  "str_exn (Exn cls msg) = msg"

section \<open>Paths and the file system\<close>

text \<open>
  A \<open>pathlib.Path\<close> is the list of its components below the root. \<open>name\<close>,
  \<open>parent\<close>, \<open>suffix\<close> and \<open>stem\<close> follow pathlib: the suffix starts at the
  last dot of the name unless that dot is the first or the last character.
\<close>

type_synonym path = "string list"

definition p_name :: "path \<Rightarrow> string" where
  "p_name p = (if p = [] then [] else last p)"

definition p_parent :: "path \<Rightarrow> path" where
  "p_parent p = butlast p"

text \<open>\<open>s.rfind(c)\<close>: the index of the last occurrence, or -1.\<close>

definition rfind :: "char \<Rightarrow> string \<Rightarrow> int" where
  "rfind c s =
     (if c \<in> set s then int (length s) - 1 - int (length (takeWhile (\<lambda>x. x \<noteq> c) (rev s)))
      else - 1)"

definition p_suffix :: "path \<Rightarrow> string" where
  "p_suffix p =
     (let name = p_name p; i = rfind CHR ''.'' name
      in if 0 < i \<and> i < int (length name) - 1 then drop (nat i) name else [])"

definition p_stem :: "path \<Rightarrow> string" where
  "p_stem p =
     (let name = p_name p; i = rfind CHR ''.'' name
      in if 0 < i \<and> i < int (length name) - 1 then take (nat i) name else name)"

text \<open>
  \<open>parent / s\<close> for a string \<open>s\<close> without a separator (every string the organizer
  joins is one: the sanitizer replaces separators, and a suffix is part of one
  component). pathlib drops an empty component and a \<open>.\<close> component.
\<close>

definition p_join :: "path \<Rightarrow> string \<Rightarrow> path" where
  "p_join parent s = (if s = [] \<or> s = ''.'' then parent else parent @ [s])"

text \<open>
  \<open>str(path)\<close>, and the \<open>OSError\<close> a system call raises on one path or on two:
  its text is the error text of the system, then the path in \<open>repr\<close> form.
\<close>

definition str_path :: "path \<Rightarrow> string" where
  "str_path p = (if p = [] then ''/'' else concat (map (\<lambda>name. CHR ''/'' # name) p))"

definition os_error :: "string \<Rightarrow> string \<Rightarrow> path \<Rightarrow> exn" where
  "os_error cls text p = Exn cls (text @ '': '' @ repr_str (str_path p))"

definition os_error2 :: "string \<Rightarrow> string \<Rightarrow> path \<Rightarrow> path \<Rightarrow> exn" where
  "os_error2 cls text p q =
     Exn cls (text @ '': '' @ repr_str (str_path p) @ '' -> '' @ repr_str (str_path q))"

text \<open>
  The file system is a finite table from paths to nodes; a path names a node by its
  components as they are written (no symbolic link, no \<open>..\<close> component). A file
  carries the rendering of its modification time (\<open>str(stat.st_mtime)\<close>) and its
  content; its size is the length of the content.
\<close>

record regular_file =
  st_mtime :: string
  content :: bytes

datatype node = File regular_file | Dir

type_synonym fs = "(path \<times> node) list"

definition exists :: "fs \<Rightarrow> path \<Rightarrow> bool" where
  "exists t p = (map_of t p \<noteq> None)"

section \<open>SmartHash\<close>

text \<open>
  \<open>SmartHash.calculate\<close>. The digest (\<open>hashlib.sha256\<close>, as \<open>hexdigest\<close>) is the
  parameter \<open>sha\<close>; the hasher's updates accumulate one byte string. \<open>stat\<close> raises
  on a missing path and \<open>open\<close> on a directory. \<open>chunk_size\<close> is a byte count (the
  only caller leaves the default 65536).
\<close>

definition calculate :: "(bytes \<Rightarrow> string) \<Rightarrow> fs \<Rightarrow> path \<Rightarrow> nat \<Rightarrow> exn + string" where
  "calculate sha t file_path chunk_size =
     (case map_of t file_path of
        None \<Rightarrow>
          Inl (os_error ''FileNotFoundError'' ''[Errno 2] No such file or directory'' file_path)
      | Some Dir \<Rightarrow> Inl (os_error ''IsADirectoryError'' ''[Errno 21] Is a directory'' file_path)
      | Some (File f) \<Rightarrow>
          (let file_size = length (content f);
               metadata = p_name file_path @ ''|'' @ str_nat file_size @ ''|'' @ st_mtime f;
               head = take chunk_size (content f);
               tail = (if file_size > chunk_size * 2
                       then take chunk_size (drop (file_size - chunk_size) (content f))
                       else [])
           in Inr (sha (encode metadata @ head @ tail))))"

section \<open>JSON values\<close>

text \<open>
  The values \<open>json.loads\<close> returns and \<open>json.dumps\<close> accepts: \<open>None\<close>, booleans,
  integers, floats, strings, lists and dicts with string keys. A float is held as the
  text \<open>repr\<close> gives for it (\<open>0.5\<close>, \<open>1e+16\<close>, \<open>-0.0\<close>, \<open>inf\<close>, \<open>nan\<close>), which
  names it uniquely. A dict is the list of its items in insertion order, each key once.
\<close>

datatype json =
    JNull
  | JBool bool
  | JInt int
  | JFloat string
  | JStr string
  | JArr "json list"
  | JObj "(string \<times> json) list"

text \<open>
  A Python dict holds each key once: the values that stand for Python objects are those
  whose dicts, at every depth, have distinct keys.
\<close>

fun distinct_keys :: "json \<Rightarrow> bool" where
  "distinct_keys (JArr xs) = (\<forall>x \<in> set xs. distinct_keys x)"
| "distinct_keys (JObj kvs) = (distinct (map fst kvs) \<and> (\<forall>kv \<in> set kvs. distinct_keys (snd kv)))"
| "distinct_keys j = True"

text \<open>Python's truth value of an object, as \<open>if cached:\<close> and \<open>if not name:\<close> test it.\<close>

fun truthy :: "json \<Rightarrow> bool" where
  "truthy JNull = False"
| "truthy (JBool b) = b"
| "truthy (JInt i) = (i \<noteq> 0)"
| "truthy (JFloat x) = (x \<noteq> ''0.0'' \<and> x \<noteq> ''-0.0'')"
| "truthy (JStr s) = (s \<noteq> [])"
| "truthy (JArr xs) = (xs \<noteq> [])"
| "truthy (JObj kvs) = (kvs \<noteq> [])"

text \<open>\<open>d[k] = v\<close>: only a dict takes a string key.\<close>

fun setitem :: "json \<Rightarrow> string \<Rightarrow> json \<Rightarrow> exn + json" where
  "setitem (JObj kvs) k v = Inr (JObj (AList.update k v kvs))"
| "setitem (JArr xs) k v = Inl (Exn ''TypeError'' ''list indices must be integers or slices, not str'')"
| "setitem j k v = Inl (Exn ''TypeError'' ''object does not support item assignment'')"

text \<open>\<open>d[k]\<close> with a string key.\<close>

fun getitem :: "json \<Rightarrow> string \<Rightarrow> exn + json" where
  "getitem (JObj kvs) k =
     (case map_of kvs k of None \<Rightarrow> Inl (Exn ''KeyError'' k) | Some v \<Rightarrow> Inr v)"
| "getitem (JArr xs) k = Inl (Exn ''TypeError'' ''list indices must be integers or slices, not str'')"
| "getitem (JStr s) k = Inl (Exn ''TypeError'' ''string indices must be integers'')"
| "getitem j k = Inl (Exn ''TypeError'' ''object is not subscriptable'')"

text \<open>\<open>k in d\<close> with a string \<open>k\<close>: a key of a dict, an element of a list, a substring of a string.\<close>

fun contains :: "json \<Rightarrow> string \<Rightarrow> exn + bool" where
  "contains (JObj kvs) k = Inr (map_of kvs k \<noteq> None)"
| "contains (JArr xs) k = Inr (JStr k \<in> set xs)"
| "contains (JStr s) k = Inr (sublist k s)"
| "contains j k = Inl (Exn ''TypeError'' ''argument is not iterable'')"

subsection \<open>\<open>json.dumps\<close>\<close>

text \<open>
  The default encoder: items separated by a comma and a space, keys by a colon and a
  space, \<open>ensure_ascii\<close> on, so every character outside the printable ASCII range is
  written as an escape.
\<close>

definition escape_char :: "char \<Rightarrow> string" where
  "escape_char c =
     (if c = CHR 0x22 then [CHR 0x5C, CHR 0x22]
      else if c = CHR 0x5C then [CHR 0x5C, CHR 0x5C]
      else if c = CHR 0x0A then [CHR 0x5C, CHR ''n'']
      else if c = CHR 0x0D then [CHR 0x5C, CHR ''r'']
      else if c = CHR 0x09 then [CHR 0x5C, CHR ''t'']
      else if c = CHR 0x08 then [CHR 0x5C, CHR ''b'']
      else if c = CHR 0x0C then [CHR 0x5C, CHR ''f'']
      else if (of_char c :: nat) < 32 \<or> 126 < (of_char c :: nat)
      then [CHR 0x5C, CHR ''u'', CHR ''0'', CHR ''0'',
            hex_digit ((of_char c :: nat) div 16), hex_digit ((of_char c :: nat) mod 16)]
      else [c])"

definition dumps_str :: "string \<Rightarrow> string" where
  "dumps_str s = CHR 0x22 # concat (map escape_char s) @ [CHR 0x22]"

text \<open>\<open>sep.join(xs)\<close>.\<close>

fun join :: "string \<Rightarrow> string list \<Rightarrow> string" where
  "join sep [] = []"
| "join sep [x] = x"
| "join sep (x # y # ys) = x @ sep @ join sep (y # ys)"

fun json_dumps :: "json \<Rightarrow> string" where
  "json_dumps JNull = ''null''"
| "json_dumps (JBool b) = (if b then ''true'' else ''false'')"
| "json_dumps (JInt i) = str_int i"
| "json_dumps (JFloat x) =
     (if x = ''nan'' then ''NaN'' else if x = ''inf'' then ''Infinity''
      else if x = ''-inf'' then ''-Infinity'' else x)"
| "json_dumps (JStr s) = dumps_str s"
| "json_dumps (JArr xs) = ''['' @ join '', '' (map json_dumps xs) @ '']''"
| "json_dumps (JObj kvs) =
     ''{'' @ join '', '' (map (\<lambda>(k, v). dumps_str k @ '': '' @ json_dumps v) kvs) @ ''}''"

subsection \<open>\<open>json.loads\<close>\<close>

text \<open>
  The decoder: a recursive-descent scanner over the text. Every function returns the
  value read and the text left, or \<open>None\<close> where the decoder raises
  \<open>JSONDecodeError\<close>. The first argument of the mutually recursive scanners bounds
  the nesting and the number of items still to read; \<open>json_loads\<close> starts them with
  more than the length of the text, which no document exhausts.
\<close>

definition is_ws :: "char \<Rightarrow> bool" where
  "is_ws c = (c = CHR '' '' \<or> c = CHR 0x09 \<or> c = CHR 0x0A \<or> c = CHR 0x0D)"

definition skip_ws :: "string \<Rightarrow> string" where
  "skip_ws s = dropWhile is_ws s"

definition is_digit :: "char \<Rightarrow> bool" where
  "is_digit c = (48 \<le> (of_char c :: nat) \<and> (of_char c :: nat) \<le> 57)"

definition digit_val :: "char \<Rightarrow> nat" where
  "digit_val c = of_char c - 48"

definition hex_val :: "char \<Rightarrow> nat option" where
  "hex_val c =
     (let n = (of_char c :: nat)
      in if 48 \<le> n \<and> n \<le> 57 then Some (n - 48)
         else if 97 \<le> n \<and> n \<le> 102 then Some (n - 87)
         else if 65 \<le> n \<and> n \<le> 70 then Some (n - 55)
         else None)"

text \<open>A \<open>\\uXXXX\<close> escape; only code points up to 255 are characters of the model.\<close>

definition unicode_escape :: "char \<Rightarrow> char \<Rightarrow> char \<Rightarrow> char \<Rightarrow> char option" where
  "unicode_escape a b c d =
     (case (hex_val a, hex_val b, hex_val c, hex_val d) of
        (Some x3, Some x2, Some x1, Some x0) \<Rightarrow>
          (if x3 = 0 \<and> x2 = 0 then Some (char_of (16 * x1 + x0)) else None)
      | _ \<Rightarrow> None)"

definition simple_escape :: "char \<Rightarrow> char option" where
  "simple_escape e =
     (if e = CHR 0x22 then Some (CHR 0x22)
      else if e = CHR 0x5C then Some (CHR 0x5C)
      else if e = CHR ''/'' then Some (CHR ''/'')
      else if e = CHR ''n'' then Some (CHR 0x0A)
      else if e = CHR ''r'' then Some (CHR 0x0D)
      else if e = CHR ''t'' then Some (CHR 0x09)
      else if e = CHR ''b'' then Some (CHR 0x08)
      else if e = CHR ''f'' then Some (CHR 0x0C)
      else None)"

text \<open>The body of a string literal, after its opening quote.\<close>

fun scan_string :: "string \<Rightarrow> (string \<times> string) option" where
  "scan_string [] = None"
| "scan_string (c # cs) =
     (if c = CHR 0x22 then Some ([], cs)
      else if c = CHR 0x5C then
        (case cs of
           [] \<Rightarrow> None
         | e # r \<Rightarrow>
             if e = CHR ''u'' then
               (case r of
                  a # b # x # y # r' \<Rightarrow>
                    (case unicode_escape a b x y of
                       None \<Rightarrow> None
                     | Some ch \<Rightarrow>
                         (case scan_string r' of
                            None \<Rightarrow> None
                          | Some (s, rest) \<Rightarrow> Some (ch # s, rest)))
                | _ \<Rightarrow> None)
             else
               (case simple_escape e of
                  None \<Rightarrow> None
                | Some ch \<Rightarrow>
                    (case scan_string r of
                       None \<Rightarrow> None
                     | Some (s, rest) \<Rightarrow> Some (ch # s, rest))))
      else if (of_char c :: nat) < 32 then None
      else
        (case scan_string cs of
           None \<Rightarrow> None
         | Some (s, rest) \<Rightarrow> Some (c # s, rest)))"

text \<open>
  An integer literal: an optional minus sign, then \<open>0\<close> or a digit string without a
  leading zero. A fraction or an exponent after it is outside the model.
\<close>

definition nat_of_digits :: "string \<Rightarrow> nat" where
  "nat_of_digits ds = foldl (\<lambda>a c. 10 * a + digit_val c) 0 ds"

definition scan_nat :: "string \<Rightarrow> (nat \<times> string) option" where
  "scan_nat s =
     (case s of
        [] \<Rightarrow> None
      | c # cs \<Rightarrow>
          if c = CHR ''0'' then Some (0, cs)
          else if is_digit c then Some (nat_of_digits (takeWhile is_digit s), dropWhile is_digit s)
          else None)"

definition no_fraction :: "string \<Rightarrow> bool" where
  "no_fraction r = (case r of [] \<Rightarrow> True | c # cs \<Rightarrow> c \<noteq> CHR ''.'' \<and> c \<noteq> CHR ''e'' \<and> c \<noteq> CHR ''E'')"

definition scan_int :: "string \<Rightarrow> (int \<times> string) option" where
  "scan_int s =
     (case s of
        [] \<Rightarrow> None
      | c # cs \<Rightarrow>
          (case (if c = CHR ''-'' then scan_nat cs else scan_nat s) of
             None \<Rightarrow> None
           | Some (n, r) \<Rightarrow>
               if no_fraction r then Some (if c = CHR ''-'' then - int n else int n, r) else None))"

definition strip_prefix :: "string \<Rightarrow> string \<Rightarrow> string option" where
  "strip_prefix p s = (if take (length p) s = p then Some (drop (length p) s) else None)"

text \<open>\<open>dict(pairs)\<close>: a later item with the same key replaces the value of the earlier one.\<close>

definition dict_of :: "(string \<times> json) list \<Rightarrow> (string \<times> json) list" where
  "dict_of kvs = foldl (\<lambda>d (k, v). AList.update k v d) [] kvs"

fun scan_value :: "nat \<Rightarrow> string \<Rightarrow> (json \<times> string) option"
  and scan_items :: "nat \<Rightarrow> string \<Rightarrow> (json list \<times> string) option"
  and scan_members :: "nat \<Rightarrow> string \<Rightarrow> ((string \<times> json) list \<times> string) option"
where
  "scan_value 0 s = None"
| "scan_value (Suc n) s =
     (case s of
        [] \<Rightarrow> None
      | c # cs \<Rightarrow>
          if c = CHR 0x22 then
            (case scan_string cs of None \<Rightarrow> None | Some (x, r) \<Rightarrow> Some (JStr x, r))
          else if c = CHR ''['' then
            (case skip_ws cs of
               [] \<Rightarrow> None
             | d # r \<Rightarrow>
                 if d = CHR '']'' then Some (JArr [], r)
                 else (case scan_items n (d # r) of
                         None \<Rightarrow> None
                       | Some (xs, r') \<Rightarrow> Some (JArr xs, r')))
          else if c = CHR ''{'' then
            (case skip_ws cs of
               [] \<Rightarrow> None
             | d # r \<Rightarrow>
                 if d = CHR ''}'' then Some (JObj [], r)
                 else (case scan_members n (d # r) of
                         None \<Rightarrow> None
                       | Some (kvs, r') \<Rightarrow> Some (JObj (dict_of kvs), r')))
          else if c = CHR ''n'' then
            (case strip_prefix ''null'' s of None \<Rightarrow> None | Some r \<Rightarrow> Some (JNull, r))
          else if c = CHR ''t'' then
            (case strip_prefix ''true'' s of None \<Rightarrow> None | Some r \<Rightarrow> Some (JBool True, r))
          else if c = CHR ''f'' then
            (case strip_prefix ''false'' s of None \<Rightarrow> None | Some r \<Rightarrow> Some (JBool False, r))
          else
            (case scan_int s of None \<Rightarrow> None | Some (i, r) \<Rightarrow> Some (JInt i, r)))"
| "scan_items 0 s = None"
| "scan_items (Suc n) s =
     (case scan_value n s of
        None \<Rightarrow> None
      | Some (v, r) \<Rightarrow>
          (case skip_ws r of
             [] \<Rightarrow> None
           | d # r' \<Rightarrow>
               if d = CHR '','' then
                 (case scan_items n (skip_ws r') of
                    None \<Rightarrow> None
                  | Some (vs, r'') \<Rightarrow> Some (v # vs, r''))
               else if d = CHR '']'' then Some ([v], r')
               else None))"
| "scan_members 0 s = None"
| "scan_members (Suc n) s =
     (case s of
        [] \<Rightarrow> None
      | q # cs \<Rightarrow>
          if q \<noteq> CHR 0x22 then None
          else
            (case scan_string cs of
               None \<Rightarrow> None
             | Some (k, r) \<Rightarrow>
                 (case skip_ws r of
                    [] \<Rightarrow> None
                  | colon # r1 \<Rightarrow>
                      if colon \<noteq> CHR '':'' then None
                      else
                        (case scan_value n (skip_ws r1) of
                           None \<Rightarrow> None
                         | Some (v, r2) \<Rightarrow>
                             (case skip_ws r2 of
                                [] \<Rightarrow> None
                              | d # r3 \<Rightarrow>
                                  if d = CHR '','' then
                                    (case scan_members n (skip_ws r3) of
                                       None \<Rightarrow> None
                                     | Some (kvs, r4) \<Rightarrow> Some ((k, v) # kvs, r4))
                                  else if d = CHR ''}'' then Some ([(k, v)], r3)
                                  else None)))))"

definition json_loads :: "string \<Rightarrow> exn + json" where
  "json_loads s =
     (case scan_value (Suc (length s)) (skip_ws s) of
        None \<Rightarrow> Inl (Exn ''JSONDecodeError'' ''Expecting value'')
      | Some (v, r) \<Rightarrow>
          if skip_ws r = [] then Inr v else Inl (Exn ''JSONDecodeError'' ''Extra data''))"

section \<open>AnalysisCache\<close>

text \<open>
  The SQLite table \<open>analysis_cache\<close>: one row per primary key \<open>(file_hash, model)\<close>,
  holding the serialized analysis and the time it was stored (whole seconds).
  \<open>fault\<close> is \<open>Some e\<close> when the database cannot be used and \<open>sqlite3\<close> raises
  \<open>e\<close> on every statement. \<open>cache_init\<close> is the table \<open>_init_db\<close> creates in a new
  database file.
\<close>

record cache_store =
  rows :: "((string \<times> string) \<times> (string \<times> int)) list"
  fault :: "exn option"

definition cache_init :: cache_store where
  "cache_init = \<lparr>rows = [], fault = None\<rparr>"

text \<open>
  \<open>AnalysisCache.get\<close>: Python's \<open>None\<close> is \<open>JNull\<close>. Nothing in the method
  catches what \<open>sqlite3\<close> or \<open>json.loads\<close> raise.
\<close>

definition cache_get :: "cache_store \<Rightarrow> string \<Rightarrow> string \<Rightarrow> exn + json" where
  "cache_get c file_hash model =
     (case fault c of
        Some e \<Rightarrow> Inl e
      | None \<Rightarrow>
          (case map_of (rows c) (file_hash, model) of
             Some (analysis, timestamp) \<Rightarrow> json_loads analysis
           | None \<Rightarrow> Inr JNull))"

text \<open>\<open>AnalysisCache.set\<close> at time \<open>now\<close>: \<open>INSERT OR REPLACE\<close>, then commit.\<close>

definition cache_set :: "cache_store \<Rightarrow> string \<Rightarrow> string \<Rightarrow> json \<Rightarrow> int \<Rightarrow> exn + cache_store" where
  "cache_set c file_hash model analysis now =
     (case fault c of
        Some e \<Rightarrow> Inl e
      | None \<Rightarrow>
          Inr (c\<lparr>rows := AList.update (file_hash, model) (json_dumps analysis, now) (rows c)\<rparr>))"

text \<open>\<open>AnalysisCache.cleanup\<close> at time \<open>now\<close>.\<close>

definition cache_cleanup :: "cache_store \<Rightarrow> int \<Rightarrow> int \<Rightarrow> exn + cache_store" where
  "cache_cleanup c ttl_days now =
     (case fault c of
        Some e \<Rightarrow> Inl e
      | None \<Rightarrow>
          (let cutoff = now - ttl_days * 86400
           in Inr (c\<lparr>rows := filter (\<lambda>(k, (analysis, timestamp)). \<not> timestamp < cutoff) (rows c)\<rparr>)))"

text \<open>A history of \<open>set\<close> calls \<open>(file_hash, model, analysis, now)\<close>, stopping at the first that raises.\<close>

fun cache_sets :: "cache_store \<Rightarrow> (string \<times> string \<times> json \<times> int) list \<Rightarrow> exn + cache_store" where
  "cache_sets c [] = Inr c"
| "cache_sets c ((file_hash, model, analysis, now) # calls) =
     (case cache_set c file_hash model analysis now of
        Inl e \<Rightarrow> Inl e
      | Inr c' \<Rightarrow> cache_sets c' calls)"

text \<open>The key a call of the history writes.\<close>

fun call_key :: "string \<times> string \<times> json \<times> int \<Rightarrow> string \<times> string" where
  "call_key (fh, mo, a, t) = (fh, mo)"

section \<open>AIAnalyzer\<close>

text \<open>
  What the organizer reaches outside the program, as parameters: the digest, the MIME
  table, the two backends (\<open>_analyze_with_gemini\<close> and \<open>_analyze_with_ollama\<close> send
  the file to a model and decode its answer; each is given the number of backend calls
  made before, so an answer may change from one call to the next), the clock, the
  \<open>exiftool\<close> run of \<open>embed_metadata\<close>, the indented rendering \<open>json.dump\<close> writes
  into a sidecar, the line \<open>input\<close> reads in interactive mode, and \<open>time.sleep\<close>,
  which gives the exception the platform raises for a duration, if any.
\<close>

record env =
  sha256 :: "bytes \<Rightarrow> string"
  guess_type :: "path \<Rightarrow> string option"
  analyze_with_gemini :: "nat \<Rightarrow> path \<Rightarrow> string \<Rightarrow> exn + json"
  analyze_with_ollama :: "nat \<Rightarrow> path \<Rightarrow> string \<Rightarrow> exn + json"
  now_iso :: string
  time_time :: int
  exiftool :: "path \<Rightarrow> json \<Rightarrow> regular_file \<Rightarrow> regular_file option"
  json_dump_indent :: "json \<Rightarrow> string"
  read_input :: "path \<Rightarrow> exn + string"
  time_sleep :: "json \<Rightarrow> exn option"

text \<open>
  What the organizer changes: the files, the directories that refuse new entries, the
  cache table, and the count of backend calls made so far.
\<close>

record world =
  files :: fs
  read_only :: "path list"
  cache :: cache_store
  backend_calls :: nat

text \<open>
  An \<open>AIAnalyzer\<close>: the backend chosen at construction, the model name, and whether a
  cache was passed in (\<open>self.cache\<close> is an \<open>AnalysisCache\<close> or \<open>None\<close>; the cache
  itself is part of the world).
\<close>

record analyzer =
  backend :: string
  model_name :: string
  has_cache :: bool

text \<open>The dict \<open>analyze\<close> returns when the analysis raised \<open>e\<close>.\<close>

definition degraded :: "env \<Rightarrow> analyzer \<Rightarrow> path \<Rightarrow> string \<Rightarrow> string \<Rightarrow> exn \<Rightarrow> json" where
  "degraded ev an file_path mime_type file_hash e =
     JObj [(''title'', JStr (p_stem file_path)),
           (''description'', JStr (''Error analyzing file: '' @ str_exn e)),
           (''category'', JStr ''other''),
           (''tags'', JArr []),
           (''mime_type'', JStr mime_type),
           (''file_hash'', JStr file_hash),
           (''analyzed_at'', JStr (now_iso ev)),
           (''model'', JStr (model_name an)),
           (''error'', JStr (str_exn e))]"

text \<open>The four item assignments that add the bookkeeping fields to a backend's result.\<close>

definition add_metadata :: "env \<Rightarrow> analyzer \<Rightarrow> string \<Rightarrow> string \<Rightarrow> json \<Rightarrow> exn + json" where
  "add_metadata ev an mime_type file_hash result =
     (case setitem result ''mime_type'' (JStr mime_type) of
        Inl e \<Rightarrow> Inl e
      | Inr r1 \<Rightarrow>
          (case setitem r1 ''file_hash'' (JStr file_hash) of
             Inl e \<Rightarrow> Inl e
           | Inr r2 \<Rightarrow>
               (case setitem r2 ''analyzed_at'' (JStr (now_iso ev)) of
                  Inl e \<Rightarrow> Inl e
                | Inr r3 \<Rightarrow> setitem r3 ''model'' (JStr (model_name an)))))"

text \<open>
  The MIME type \<open>analyze\<close> works with: the guess, or the default when there is none.
\<close>

definition detect_mime :: "env \<Rightarrow> path \<Rightarrow> string" where
  "detect_mime ev file_path =
     (case guess_type ev file_path of
        None \<Rightarrow> ''application/octet-stream''
      | Some m \<Rightarrow> if m = [] then ''application/octet-stream'' else m)"

text \<open>The backend step: the call \<open>analyze\<close> dispatches on \<open>self.backend\<close>.\<close>

definition backend_step :: "env \<Rightarrow> analyzer \<Rightarrow> nat \<Rightarrow> path \<Rightarrow> string \<Rightarrow> exn + json" where
  "backend_step ev an calls file_path mime_type =
     (if backend an = ''gemini'' then analyze_with_gemini ev calls file_path mime_type
      else analyze_with_ollama ev calls file_path mime_type)"

text \<open>
  The body of the \<open>try\<close> block of \<open>analyze\<close>: the backend call, the bookkeeping fields,
  the cache write. It returns the result or the exception raised, and the world as
  it is then.
\<close>

definition analyze_try :: "env \<Rightarrow> analyzer \<Rightarrow> world \<Rightarrow> path \<Rightarrow> string \<Rightarrow> string \<Rightarrow> (exn + json) \<times> world" where
  "analyze_try ev an w file_path mime_type file_hash =
     (let w1 = w\<lparr>backend_calls := Suc (backend_calls w)\<rparr>
      in case backend_step ev an (backend_calls w) file_path mime_type of
           Inl e \<Rightarrow> (Inl e, w1)
         | Inr result \<Rightarrow>
             (case add_metadata ev an mime_type file_hash result of
                Inl e \<Rightarrow> (Inl e, w1)
              | Inr result' \<Rightarrow>
                  if has_cache an then
                    (case cache_set (cache w1) file_hash (model_name an) result' (time_time ev) of
                       Inl e \<Rightarrow> (Inl e, w1)
                     | Inr c' \<Rightarrow> (Inr result', w1\<lparr>cache := c'\<rparr>))
                  else (Inr result', w1)))"

text \<open>
  \<open>AIAnalyzer.analyze\<close>. The fingerprint and the cache lookup are outside the
  \<open>try\<close> block, so what they raise leaves the method; what the \<open>try\<close> block raises
  is replaced by the degraded dict.
\<close>

definition analyze :: "env \<Rightarrow> analyzer \<Rightarrow> world \<Rightarrow> path \<Rightarrow> (exn + json) \<times> world" where
  "analyze ev an w file_path =
     (case calculate (sha256 ev) (files w) file_path 65536 of
        Inl e \<Rightarrow> (Inl e, w)
      | Inr file_hash \<Rightarrow>
          (case (if has_cache an then cache_get (cache w) file_hash (model_name an)
                 else Inr JNull) of
             Inl e \<Rightarrow> (Inl e, w)
           | Inr cached \<Rightarrow>
               if has_cache an \<and> truthy cached then (Inr cached, w)
               else
                 (let mime_type = detect_mime ev file_path
                  in case analyze_try ev an w file_path mime_type file_hash of
                       (Inr result, w') \<Rightarrow> (Inr result, w')
                     | (Inl e, w') \<Rightarrow>
                         (Inr (degraded ev an file_path mime_type file_hash e), w'))))"

text \<open>
  The fields of \<open>Config\<close> the organizer reads. \<open>rate_limit_delay\<close> is the object
  found under that name: the float of the dataclass, or whatever the TOML file gave
  (\<open>load_config\<close> copies every value as it is).
\<close>

record config =
  model :: string
  ollama_model :: string
  gemini_api_key :: "string option"
  use_local :: bool
  max_workers :: int
  rate_limit_delay :: json
  cache_enabled :: bool
  rename_files :: bool
  embed_metadata :: bool
  create_json_sidecar :: bool
  dry_run :: bool
  interactive :: bool

text \<open>
  \<open>AIAnalyzer.__init__\<close>: the backend is chosen from the configuration and from
  which client libraries could be imported.
\<close>

definition new_analyzer :: "config \<Rightarrow> bool \<Rightarrow> bool \<Rightarrow> exn + analyzer" where
  "new_analyzer cfg genai_imported ollama_imported =
     (if \<not> use_local cfg \<and> genai_imported \<and> gemini_api_key cfg \<noteq> None \<and> gemini_api_key cfg \<noteq> Some []
      then Inr \<lparr>backend = ''gemini'', model_name = model cfg, has_cache = cache_enabled cfg\<rparr>
      else if use_local cfg \<and> ollama_imported
      then Inr \<lparr>backend = ''ollama'', model_name = ollama_model cfg, has_cache = cache_enabled cfg\<rparr>
      else Inl (Exn ''RuntimeError''
                 ''No AI backend available. Install google-generativeai or ollama.''))"

section \<open>FileOrganizer\<close>

subsection \<open>safe_rename\<close>

text \<open>
  The sanitizer: \<open>re.sub\<close> replaces each of the nine reserved characters by an
  underscore, \<open>strip\<close> removes the whitespace at both ends (the code points below 256
  that \<open>str.isspace\<close> accepts).
\<close>

definition reserved :: string where
  "reserved = [CHR ''<'', CHR ''>'', CHR '':'', CHR 0x22, CHR ''/'', CHR 0x5C,
               CHR ''|'', CHR ''?'', CHR ''*'']"

definition re_sub_reserved :: "string \<Rightarrow> string" where
  "re_sub_reserved s = map (\<lambda>c. if c \<in> set reserved then CHR ''_'' else c) s"

definition isspace :: "char \<Rightarrow> bool" where
  "isspace c = ((of_char c :: nat) \<in> {9, 10, 11, 12, 13, 28, 29, 30, 31, 32, 133, 160})"

definition strip :: "string \<Rightarrow> string" where
  "strip s = rev (dropWhile isspace (rev (dropWhile isspace s)))"

text \<open>The candidate the collision loop tries at a given counter.\<close>

definition numbered :: "path \<Rightarrow> string \<Rightarrow> nat \<Rightarrow> path" where
  "numbered file_path suggested_name counter =
     p_join (p_parent file_path) (suggested_name @ ''_'' @ str_nat counter @ p_suffix file_path)"

text \<open>
  The loop terminates because the table is finite and the candidates of different
  counters differ: \<open>str\<close> is injective on the naturals.
\<close>

lemma digit_val_digit_char: "d < 10 \<Longrightarrow> digit_val (digit_char d) = d"
proof -
  assume "d < 10"
  then consider "d = 0" | "d = 1" | "d = 2" | "d = 3" | "d = 4"
    | "d = 5" | "d = 6" | "d = 7" | "d = 8" | "d = 9"
    by atomize_elim arith
  then show ?thesis
    by cases (simp_all add: digit_val_def digit_char_def)
qed

lemma nat_of_digits_snoc: "nat_of_digits (ds @ [c]) = 10 * nat_of_digits ds + digit_val c"
  by (simp add: nat_of_digits_def)

lemma nat_of_digits_str_nat: "nat_of_digits (str_nat n) = n"
proof (induction n rule: str_nat.induct)
  case (1 n)
  show ?case
  proof (cases "n < 10")
    case True
    then show ?thesis
      by (subst str_nat.simps) (simp add: nat_of_digits_def digit_val_digit_char)
  next
    case False
    with 1 show ?thesis
      by (subst str_nat.simps) (simp add: nat_of_digits_snoc digit_val_digit_char)
  qed
qed

lemma str_nat_inj: "str_nat m = str_nat n \<Longrightarrow> m = n"
  by (metis nat_of_digits_str_nat)

lemma str_nat_not_Nil: "str_nat n \<noteq> []"
  by (subst str_nat.simps) simp

lemma numbered_eq: "numbered fp sn k = p_parent fp @ [sn @ ''_'' @ str_nat k @ p_suffix fp]"
proof -
  have "sn @ ''_'' @ str_nat k @ p_suffix fp \<noteq> ''.''"
    using str_nat_not_Nil [of k] by (cases sn; cases "str_nat k") auto
  then show ?thesis
    by (simp add: numbered_def p_join_def)
qed

lemma numbered_inj: "numbered fp sn j = numbered fp sn k \<Longrightarrow> j = k"
  by (simp add: numbered_eq str_nat_inj)

lemma finite_taken: "finite {j. exists t (numbered fp sn j)}"
proof -
  have "inj (numbered fp sn)"
    by (rule injI) (rule numbered_inj)
  moreover have "finite (dom (map_of t))"
    by (rule finite_dom_map_of)
  ultimately have "finite (numbered fp sn -` dom (map_of t))"
    by (rule finite_vimageI [rotated])
  moreover have "{j. exists t (numbered fp sn j)} = numbered fp sn -` dom (map_of t)"
    by (auto simp: exists_def)
  ultimately show ?thesis by simp
qed

text \<open>
  The \<open>while\<close> loop of \<open>safe_rename\<close>, on its two variables \<open>new_path\<close> and
  \<open>counter\<close>.
\<close>

function collide :: "fs \<Rightarrow> path \<Rightarrow> string \<Rightarrow> path \<Rightarrow> nat \<Rightarrow> path" where
  "collide t file_path suggested_name new_path counter =
     (if exists t new_path \<and> new_path \<noteq> file_path
      then collide t file_path suggested_name
             (numbered file_path suggested_name counter) (counter + 1)
      else new_path)"
  by pat_completeness auto
termination
proof (relation "measure (\<lambda>(t, fp, sn, np, k).
         2 * card {j. k \<le> j \<and> exists t (numbered fp sn j)} + (if exists t np then 1 else 0))",
       goal_cases)
  case 1
  show ?case by simp
next
  case (2 t file_path suggested_name new_path counter)
  let ?A = "{j. counter \<le> j \<and> exists t (numbered file_path suggested_name j)}"
  let ?B = "{j. counter + 1 \<le> j \<and> exists t (numbered file_path suggested_name j)}"
  have fin: "finite ?A"
    using finite_taken [of t file_path suggested_name] by simp
  show ?case
  proof (cases "exists t (numbered file_path suggested_name counter)")
    case True
    have "?A = insert counter ?B"
      using True by (auto simp: le_Suc_eq)
    moreover have "counter \<notin> ?B" by simp
    moreover have "finite ?B"
      using fin by (rule rev_finite_subset) auto
    ultimately have "card ?A = Suc (card ?B)" by simp
    with 2 True show ?thesis by simp
  next
    case False
    have "?A = ?B"
      using False by (auto simp: le_Suc_eq) (metis le_antisym not_less_eq_eq)
    with 2 False show ?thesis by simp
  qed
qed

declare collide.simps [simp del]

text \<open>
  \<open>Path.rename\<close> on the table: the entry (and what lies below it) moves to the new
  path. It raises when the source is missing or when a directory involved refuses
  changes. Where \<open>safe_rename\<close> calls it the destination is free.
\<close>

definition os_rename :: "world \<Rightarrow> path \<Rightarrow> path \<Rightarrow> exn + fs" where
  "os_rename w src dst =
     (if \<not> exists (files w) src
      then Inl (os_error2 ''FileNotFoundError'' ''[Errno 2] No such file or directory'' src dst)
      else if p_parent src \<in> set (read_only w) \<or> p_parent dst \<in> set (read_only w)
      then Inl (os_error2 ''PermissionError'' ''[Errno 13] Permission denied'' src dst)
      else Inr (map (\<lambda>(k, n). if prefix src k then (dst @ drop (length src) k, n) else (k, n))
                  (files w)))"

text \<open>
  \<open>FileOrganizer.safe_rename\<close>. The argument is the value found under
  \<open>suggested_filename\<close>, whatever its type; \<open>re.sub\<close> raises on anything but a
  string.
\<close>

definition safe_rename :: "config \<Rightarrow> world \<Rightarrow> path \<Rightarrow> json \<Rightarrow> (exn + path option) \<times> world" where
  "safe_rename cfg w file_path suggested_name =
     (if \<not> truthy suggested_name then (Inr None, w)
      else
        (case suggested_name of
           JStr s \<Rightarrow>
             (let name = strip (re_sub_reserved s);
                  new_path = collide (files w) file_path name
                               (p_join (p_parent file_path) (name @ p_suffix file_path)) 1
              in if new_path = file_path then (Inr None, w)
                 else if \<not> dry_run cfg then
                   (case os_rename w file_path new_path of
                      Inl e \<Rightarrow> (Inl e, w)
                    | Inr t' \<Rightarrow> (Inr (Some new_path), w\<lparr>files := t'\<rparr>))
                 else (Inr (Some new_path), w))
         | _ \<Rightarrow> (Inl (Exn ''TypeError'' ''expected string or bytes-like object''), w)))"

subsection \<open>MetadataManager\<close>

text \<open>
  \<open>embed_metadata\<close> catches everything it raises and returns whether \<open>exiftool\<close>
  rewrote the file.
\<close>

definition mm_embed_metadata :: "env \<Rightarrow> world \<Rightarrow> path \<Rightarrow> json \<Rightarrow> bool \<times> world" where
  "mm_embed_metadata ev w file_path md =
     (case map_of (files w) file_path of
        Some (File f) \<Rightarrow>
          (case exiftool ev file_path md f of
             Some f' \<Rightarrow> (True, w\<lparr>files := AList.update file_path (File f') (files w)\<rparr>)
           | None \<Rightarrow> (False, w))
      | _ \<Rightarrow> (False, w))"

text \<open>\<open>Path.with_suffix\<close>.\<close>

definition p_with_suffix :: "path \<Rightarrow> string \<Rightarrow> exn + path" where
  "p_with_suffix p new_suffix =
     (let name = p_name p; old = p_suffix p
      in if name = [] then Inl (Exn ''ValueError'' ''path has an empty name'')
         else Inr (p_parent p @ [take (length name - length old) name @ new_suffix]))"

text \<open>
  \<open>create_json_sidecar\<close>: \<open>open(sidecar_path, 'w')\<close> raises on a directory, and on a
  path that does not exist yet in a directory that refuses new entries; otherwise the
  file is created, or the one that is there is overwritten, with the rendering.
\<close>

definition mm_create_json_sidecar :: "env \<Rightarrow> world \<Rightarrow> path \<Rightarrow> json \<Rightarrow> exn + world" where
  "mm_create_json_sidecar ev w file_path md =
     (case p_with_suffix file_path (p_suffix file_path @ ''.json'') of
        Inl e \<Rightarrow> Inl e
      | Inr sidecar_path \<Rightarrow>
          if map_of (files w) sidecar_path = Some Dir
          then Inl (os_error ''IsADirectoryError'' ''[Errno 21] Is a directory'' sidecar_path)
          else if map_of (files w) sidecar_path = None \<and> p_parent sidecar_path \<in> set (read_only w)
          then Inl (os_error ''PermissionError'' ''[Errno 13] Permission denied'' sidecar_path)
          else Inr (w\<lparr>files := AList.update sidecar_path
                       (File \<lparr>st_mtime = str_int (time_time ev) @ ''.0'',
                              content = encode (json_dump_indent ev md)\<rparr>)
                       (files w)\<rparr>))"

subsection \<open>process_file\<close>

text \<open>
  The dict \<open>process_file\<close> returns; \<open>JNull\<close> is the \<open>None\<close> under \<open>metadata\<close>, and
  \<open>error\<close> is \<open>None\<close> when the dict has no such key.
\<close>

record outcome =
  o_file :: path
  success :: bool
  metadata :: json
  renamed_to :: "path option"
  error :: "string option"

text \<open>
  The four lines interactive mode prints before it asks: \<open>get\<close> needs a dict,
  \<open>join\<close> an iterable of strings, the slice a sequence. The result is the exception
  they raise, if any.
\<close>

definition show_analysis :: "json \<Rightarrow> exn option" where
  "show_analysis md =
     (case md of
        JObj kvs \<Rightarrow>
          (let tags_ok = (case map_of kvs ''tags'' of
                            None \<Rightarrow> True
                          | Some (JArr xs) \<Rightarrow> list_all (\<lambda>x. case x of JStr s \<Rightarrow> True | _ \<Rightarrow> False) xs
                          | Some (JStr s) \<Rightarrow> True
                          | Some (JObj m) \<Rightarrow> True
                          | Some _ \<Rightarrow> False);
               description_ok = (case map_of kvs ''description'' of
                                   None \<Rightarrow> True
                                 | Some (JStr s) \<Rightarrow> True
                                 | Some (JArr xs) \<Rightarrow> True
                                 | Some _ \<Rightarrow> False)
           in if \<not> tags_ok then Some (Exn ''TypeError'' ''can only join an iterable of str'')
              else if \<not> description_ok then Some (Exn ''TypeError'' ''object is not subscriptable'')
              else None)
      | _ \<Rightarrow> Some (Exn ''AttributeError'' ''object has no attribute get''))"

text \<open>\<open>str.lower\<close> on code points below 256, and the test on the answer typed.\<close>

definition lower_char :: "char \<Rightarrow> char" where
  "lower_char c =
     (let n = (of_char c :: nat)
      in if (65 \<le> n \<and> n \<le> 90) \<or> (192 \<le> n \<and> n \<le> 222 \<and> n \<noteq> 215) then char_of (n + 32) else c)"

definition declined :: "string \<Rightarrow> bool" where
  "declined line = (let response = map lower_char (strip line) in response \<noteq> [] \<and> response \<noteq> ''y'')"

text \<open>
  The \<open>try\<close> block of \<open>process_file\<close> returns the exception that left it, if any,
  the result dict as it is at that moment, and the world. Its last two steps and the
  final \<open>success\<close>: metadata embedding and the sidecar, both skipped in a dry run.
\<close>

definition embed_step :: "config \<Rightarrow> env \<Rightarrow> world \<Rightarrow> path \<Rightarrow> json \<Rightarrow> world" where
  "embed_step cfg ev w file_path md =
     (if embed_metadata cfg \<and> \<not> dry_run cfg then snd (mm_embed_metadata ev w file_path md) else w)"

definition process_outputs :: "config \<Rightarrow> env \<Rightarrow> world \<Rightarrow> path \<Rightarrow> json \<Rightarrow> outcome \<Rightarrow> exn option \<times> outcome \<times> world" where
  "process_outputs cfg ev w file_path md result =
     (let w1 = embed_step cfg ev w file_path md
      in if create_json_sidecar cfg \<and> \<not> dry_run cfg then
           (case mm_create_json_sidecar ev w1 file_path md of
              Inl e \<Rightarrow> (Some e, result, w1)
            | Inr w2 \<Rightarrow> (None, result\<lparr>success := True\<rparr>, w2))
         else (None, result\<lparr>success := True\<rparr>, w1))"

text \<open>The rename step, then the rest on the path the file has now.\<close>

definition process_rename :: "config \<Rightarrow> env \<Rightarrow> world \<Rightarrow> path \<Rightarrow> json \<Rightarrow> outcome \<Rightarrow> exn option \<times> outcome \<times> world" where
  "process_rename cfg ev w file_path md result =
     (if rename_files cfg then
        (case contains md ''suggested_filename'' of
           Inl e \<Rightarrow> (Some e, result, w)
         | Inr False \<Rightarrow> process_outputs cfg ev w file_path md result
         | Inr True \<Rightarrow>
             (case getitem md ''suggested_filename'' of
                Inl e \<Rightarrow> (Some e, result, w)
              | Inr suggested \<Rightarrow>
                  (case safe_rename cfg w file_path suggested of
                     (Inl e, w1) \<Rightarrow> (Some e, result, w1)
                   | (Inr None, w1) \<Rightarrow> process_outputs cfg ev w1 file_path md result
                   | (Inr (Some new_path), w1) \<Rightarrow>
                       process_outputs cfg ev w1 new_path md
                         (result\<lparr>renamed_to := Some new_path\<rparr>))))
      else process_outputs cfg ev w file_path md result)"

text \<open>Interactive mode skips the file when the answer typed is neither empty nor \<open>y\<close>.\<close>

definition skipped :: "config \<Rightarrow> env \<Rightarrow> path \<Rightarrow> bool" where
  "skipped cfg ev file_path =
     (interactive cfg \<and> (case read_input ev file_path of Inl e \<Rightarrow> False | Inr line \<Rightarrow> declined line))"

text \<open>The whole \<open>try\<close> block: the analysis, the interactive review, then the steps above.\<close>

definition process_try :: "config \<Rightarrow> env \<Rightarrow> analyzer \<Rightarrow> world \<Rightarrow> path \<Rightarrow> outcome \<Rightarrow> exn option \<times> outcome \<times> world" where
  "process_try cfg ev an w file_path result =
     (case analyze ev an w file_path of
        (Inl e, w1) \<Rightarrow> (Some e, result, w1)
      | (Inr md, w1) \<Rightarrow>
          (let result1 = result\<lparr>metadata := md\<rparr>
           in if interactive cfg then
                (case show_analysis md of
                   Some e \<Rightarrow> (Some e, result1, w1)
                 | None \<Rightarrow>
                     (case read_input ev file_path of
                        Inl e \<Rightarrow> (Some e, result1, w1)
                      | Inr line \<Rightarrow>
                          if declined line then (None, result1, w1)
                          else process_rename cfg ev w1 file_path md result1))
              else process_rename cfg ev w1 file_path md result1))"

text \<open>
  \<open>FileOrganizer.process_file\<close>: the result dict as it is created, then the
  \<open>try\<close> block; the \<open>except\<close> clause catches whatever left the block and
  records it under \<open>error\<close>, so the method always returns its result dict.
\<close>

definition new_result :: "path \<Rightarrow> outcome" where
  "new_result file_path =
     \<lparr>o_file = file_path, success = False, metadata = JNull, renamed_to = None, error = None\<rparr>"

definition process_file :: "config \<Rightarrow> env \<Rightarrow> analyzer \<Rightarrow> world \<Rightarrow> path \<Rightarrow> outcome \<times> world" where
  "process_file cfg ev an w file_path =
     (case process_try cfg ev an w file_path (new_result file_path) of
        (None, result, w1) \<Rightarrow> (result, w1)
      | (Some e, result, w1) \<Rightarrow> (result\<lparr>error := Some (str_exn e)\<rparr>, w1))"

subsection \<open>process_batch\<close>

text \<open>
  \<open>self.config.rate_limit_delay > 0\<close>: a number compares with \<open>0\<close>, every other
  object raises \<open>TypeError\<close>. (\<open>nan\<close> is not greater than anything.)
\<close>

definition not_supported :: "string \<Rightarrow> exn" where
  "not_supported tp =
     Exn ''TypeError''
       ([CHR 0x27] @ ''>'' @ [CHR 0x27] @ '' not supported between instances of ''
        @ [CHR 0x27] @ tp @ [CHR 0x27] @ '' and '' @ [CHR 0x27] @ ''int'' @ [CHR 0x27])"

fun greater_than_zero :: "json \<Rightarrow> exn + bool" where
  "greater_than_zero (JBool b) = Inr b"
| "greater_than_zero (JInt i) = Inr (0 < i)"
| "greater_than_zero (JFloat x) = Inr (x \<noteq> ''nan'' \<and> x \<noteq> ''0.0'' \<and> take 1 x \<noteq> ''-'')"
| "greater_than_zero JNull = Inl (not_supported ''NoneType'')"
| "greater_than_zero (JStr s) = Inl (not_supported ''str'')"
| "greater_than_zero (JArr xs) = Inl (not_supported ''list'')"
| "greater_than_zero (JObj kvs) = Inl (not_supported ''dict'')"

text \<open>
  The two lines after \<open>results.append(result)\<close>: the test, then the sleep. The
  result is the exception that leaves them, if any.
\<close>

definition pause :: "config \<Rightarrow> env \<Rightarrow> exn option" where
  "pause cfg ev =
     (case greater_than_zero (rate_limit_delay cfg) of
        Inl e \<Rightarrow> Some e
      | Inr True \<Rightarrow> time_sleep ev (rate_limit_delay cfg)
      | Inr False \<Rightarrow> None)"

text \<open>
  What \<open>results\<close> holds: the dict a call of \<open>process_file\<close> returned, or the
  dict the \<open>except\<close> clause of the loop builds, which has the three keys \<open>file\<close>,
  \<open>success\<close> (false) and \<open>error\<close>.
\<close>

datatype entry = Returned outcome | Failed path string

text \<open>The values of such a dict under \<open>file\<close> and under \<open>success\<close>.\<close>

fun e_file :: "entry \<Rightarrow> path" where
  "e_file (Returned result) = o_file result"
| "e_file (Failed file_path msg) = file_path"

fun e_success :: "entry \<Rightarrow> bool" where
  "e_success (Returned result) = success result"
| "e_success (Failed file_path msg) = False"

text \<open>
  One turn of the loop over the completed futures, for the future of \<open>path\<close>:
  \<open>future.result()\<close> returns a dict or raises; the dict is appended, then comes
  the pause, all inside the \<open>try\<close>; the \<open>except\<close> clause appends its own dict
  for whatever was raised, by \<open>result()\<close> or by the pause. The value is what the
  turn appends.
\<close>

definition collect :: "config \<Rightarrow> env \<Rightarrow> path \<Rightarrow> exn + outcome \<Rightarrow> entry list" where
  "collect cfg ev path_of_future future_result =
     (case future_result of
        Inl e \<Rightarrow> [Failed path_of_future (str_exn e)]
      | Inr result \<Rightarrow>
          (case pause cfg ev of
             None \<Rightarrow> [Returned result]
           | Some e \<Rightarrow> [Returned result, Failed path_of_future (str_exn e)]))"

text \<open>
  A worker thread runs \<open>process_file\<close> on the path of its task, and the future
  holds the dict returned (\<open>process_file\<close> lets no exception out). The threads
  share the files, the cache and the backend, and nothing in the code orders their
  steps, so the world a task works in does not follow from the batch: it is a
  parameter, \<open>seen i\<close> for the task submitted \<open>i\<close>-th. A task is taken as one call
  of \<open>process_file\<close> in that world; what another thread changes between two steps
  of the same task is not followed.
\<close>

definition future_result :: "config \<Rightarrow> env \<Rightarrow> analyzer \<Rightarrow> world \<Rightarrow> path \<Rightarrow> exn + outcome" where
  "future_result cfg ev an w file_path = Inr (fst (process_file cfg ev an w file_path))"

text \<open>
  \<open>as_completed\<close> yields every future once, in the order in which the tasks
  finish: \<open>finished\<close>, a rearrangement of the task numbers \<open>0..<n\<close> (a list that is
  not one is read as \<open>0..<n\<close>).
\<close>

definition completion_order :: "nat \<Rightarrow> nat list \<Rightarrow> nat list" where
  "completion_order n finished = (if mset finished = mset [0..<n] then finished else [0..<n])"

text \<open>
  \<open>FileOrganizer.process_batch\<close>. \<open>ThreadPoolExecutor\<close> raises \<open>ValueError\<close> unless
  \<open>max_workers\<close> is positive; then one task is submitted per element of \<open>paths\<close>,
  and \<open>results\<close> grows by one turn of the loop per future.
\<close>

definition process_batch :: "config \<Rightarrow> env \<Rightarrow> analyzer \<Rightarrow> (nat \<Rightarrow> world) \<Rightarrow> path list \<Rightarrow> nat list \<Rightarrow> exn + entry list" where
  "process_batch cfg ev an seen paths finished =
     (if max_workers cfg \<le> 0 then Inl (Exn ''ValueError'' ''max_workers must be greater than 0'')
      else Inr (concat (map (\<lambda>i. collect cfg ev (paths ! i)
                                   (future_result cfg ev an (seen i) (paths ! i)))
                         (completion_order (length paths) finished))))"

section \<open>An example installation\<close>

text \<open>
  A directory \<open>d\<close> with three text files and a directory \<open>locked\<close> that refuses
  new entries, with one file; the Gemini backend with the cache on, and an environment
  in which the first backend call times out and the later ones answer.
  The digest is the identity, so a fingerprint shows what was hashed. The person at
  the prompt declines \<open>y.txt\<close> and accepts every other file. \<open>time.sleep\<close> refuses
  an infinite duration, as it does on Linux, and sleeps through every other one.
\<close>

definition ex_answer :: json where
  "ex_answer = JObj [(''title'', JStr ''Quarterly report''), (''category'', JStr ''document''),
                     (''tags'', JArr [JStr ''work'']), (''suggested_filename'', JStr ''report'')]"

definition ex_env :: env where
  "ex_env = \<lparr>sha256 = (\<lambda>b. b),
             guess_type = (\<lambda>p. if p_suffix p = ''.txt'' then Some ''text/plain'' else None),
             analyze_with_gemini =
               (\<lambda>calls p m. if calls = 0 then Inl (Exn ''TimeoutError'' ''timed out'')
                             else Inr ex_answer),
             analyze_with_ollama = (\<lambda>calls p m. Inl (Exn ''ConnectionError'' ''connection refused'')),
             now_iso = ''2024-01-01T00:00:00'',
             time_time = 1000,
             exiftool = (\<lambda>p md f. None),
             json_dump_indent = json_dumps,
             read_input = (\<lambda>p. if p_name p = ''y.txt'' then Inr ''n'' else Inr ''y''),
             time_sleep =
               (\<lambda>d. if d = JFloat ''inf''
                    then Some (Exn ''OverflowError'' ''timestamp out of range for platform time_t'')
                    else None)\<rparr>"

definition ex_world :: world where
  "ex_world = \<lparr>files = [([''d'', ''report.txt''], File \<lparr>st_mtime = ''1.0'', content = ''aaa''\<rparr>),
                        ([''d'', ''x.txt''], File \<lparr>st_mtime = ''1.0'', content = ''bbb''\<rparr>),
                        ([''d'', ''y.txt''], File \<lparr>st_mtime = ''1.0'', content = ''ccc''\<rparr>),
                        ([''locked'', ''z.txt''], File \<lparr>st_mtime = ''1.0'', content = ''ddd''\<rparr>)],
               read_only = [[''locked'']],
               cache = cache_init,
               backend_calls = 0\<rparr>"

definition ex_analyzer :: analyzer where
  "ex_analyzer = \<lparr>backend = ''gemini'', model_name = ''gemini-2.0-flash-exp'', has_cache = True\<rparr>"

definition ex_config :: config where
  "ex_config = \<lparr>model = ''gemini-2.0-flash-exp'', ollama_model = ''llama3.2-vision'',
                gemini_api_key = Some ''key'', use_local = False, max_workers = 4,
                rate_limit_delay = JFloat ''1.0'',
                cache_enabled = True, rename_files = False, embed_metadata = True,
                create_json_sidecar = True, dry_run = False, interactive = False\<rparr>"

section \<open>Fingerprints\<close>

text \<open>
  C9. The fingerprint of a file is the digest of \<open>name|size|mtime\<close>, then the first
  \<open>chunk_size\<close> bytes, then, exactly when the size exceeds twice the chunk size, the
  last \<open>chunk_size\<close> bytes. Hence two files with the same name, size, modification
  time, head and (where it is hashed) tail have the same fingerprint, whatever lies
  between head and tail.
\<close>

theorem calculate_samples_head_and_tail:
  assumes "map_of t p = Some (File f)" and "map_of t' p' = Some (File f')"
  shows "calculate sha t p c =
           Inr (sha (encode (p_name p @ ''|'' @ str_nat (length (content f)) @ ''|'' @ st_mtime f)
                     @ take c (content f)
                     @ (if 2 * c < length (content f)
                        then drop (length (content f) - c) (content f) else [])))
         \<and> (p_name p = p_name p' \<and> length (content f) = length (content f')
              \<and> st_mtime f = st_mtime f' \<and> take c (content f) = take c (content f')
              \<and> (2 * c < length (content f) \<longrightarrow>
                    drop (length (content f) - c) (content f)
                    = drop (length (content f') - c) (content f'))
            \<longrightarrow> calculate sha t p c = calculate sha t' p' c)"
proof -
  have tail: "take c (drop (length xs - c) xs) = drop (length xs - c) xs" for xs :: bytes
    by simp
  show ?thesis
    using assms by (auto simp: calculate_def Let_def tail mult.commute)
qed

theorem calculate_samples_head_and_tail_witness:
  "calculate id [([''d'', ''a.bin''], File \<lparr>st_mtime = ''1.5'', content = ''abXYZcd''\<rparr>)] [''d'', ''a.bin''] 2
     = Inr (''a.bin|7|1.5'' @ ''ab'' @ ''cd'')
   \<and> calculate id [([''d'', ''a.bin''], File \<lparr>st_mtime = ''1.5'', content = ''abXYZcd''\<rparr>)] [''d'', ''a.bin''] 2
     = calculate id [([''e'', ''a.bin''], File \<lparr>st_mtime = ''1.5'', content = ''abQQQcd''\<rparr>)] [''e'', ''a.bin''] 2"
  using calculate_samples_head_and_tail
    [of "[([''d'', ''a.bin''], File \<lparr>st_mtime = ''1.5'', content = ''abXYZcd''\<rparr>)]" "[''d'', ''a.bin'']"
        "\<lparr>st_mtime = ''1.5'', content = ''abXYZcd''\<rparr>"
        "[([''e'', ''a.bin''], File \<lparr>st_mtime = ''1.5'', content = ''abQQQcd''\<rparr>)]" "[''e'', ''a.bin'']"
        "\<lparr>st_mtime = ''1.5'', content = ''abQQQcd''\<rparr>" id 2]
  by (simp add: calculate_def p_name_def encode_def encode_char_def str_nat.simps digit_char_def)

section \<open>The analysis cache\<close>

lemma cache_sets_rows:
  "cache_sets c calls = Inr c' \<Longrightarrow> fault c = None \<Longrightarrow> (h, m) \<notin> set (map call_key calls)
     \<Longrightarrow> fault c' = None \<and> map_of (rows c') (h, m) = map_of (rows c) (h, m)"
proof (induction calls arbitrary: c)
  case Nil
  then show ?case by simp
next
  case (Cons x calls)
  obtain fh mo a t where x: "x = (fh, mo, a, t)" by (cases x)
  show ?case
  proof (cases "fault c")
    case None
    with Cons.prems x
    have run: "cache_sets (c\<lparr>rows := AList.update (fh, mo) (json_dumps a, t) (rows c)\<rparr>) calls = Inr c'"
      by (simp add: cache_set_def)
    from Cons.prems(3) x have notin: "(h, m) \<notin> set (map call_key calls)"
      by simp
    from Cons.prems(3) x have neq: "(fh, mo) \<noteq> (h, m)"
      by auto
    from Cons.IH [OF run _ notin] None neq show ?thesis
      by (auto simp: update_conv')
  next
    case (Some e)
    with Cons.prems x show ?thesis by (simp add: cache_set_def)
  qed
qed




section \<open>Degraded results\<close>

lemma analyze_backend_raises:
  assumes fp: "calculate (sha256 ev) (files w) p 65536 = Inr h"
    and miss: "has_cache an \<longrightarrow> (\<exists>c. cache_get (cache w) h (model_name an) = Inr c \<and> \<not> truthy c)"
    and raises: "backend_step ev an (backend_calls w) p (detect_mime ev p) = Inl e"
  shows "analyze ev an w p =
           (Inr (degraded ev an p (detect_mime ev p) h e), w\<lparr>backend_calls := Suc (backend_calls w)\<rparr>)"
  using assms by (auto simp: analyze_def analyze_try_def Let_def)

lemma analyze_backend_returns:
  assumes fp: "calculate (sha256 ev) (files w) p 65536 = Inr h"
    and miss: "has_cache an \<longrightarrow> (\<exists>c. cache_get (cache w) h (model_name an) = Inr c \<and> \<not> truthy c)"
    and answer: "backend_step ev an (backend_calls w) p (detect_mime ev p) = Inr r"
    and fields: "add_metadata ev an (detect_mime ev p) h r = Inr r'"
    and avail: "has_cache an \<longrightarrow> fault (cache w) = None"
  shows "fst (analyze ev an w p) = Inr r'"
  using assms by (auto simp: analyze_def analyze_try_def Let_def cache_set_def split: option.splits)

text \<open>The example: the first backend call on \<open>x.txt\<close> times out.\<close>

lemma ex_fingerprint:
  "calculate (sha256 ex_env) (files ex_world) [''d'', ''x.txt''] 65536 = Inr ''x.txt|3|1.0bbb''"
  by (simp add: calculate_def ex_env_def ex_world_def p_name_def encode_def encode_char_def
      str_nat.simps digit_char_def)

lemma ex_miss:
  "has_cache ex_analyzer \<longrightarrow>
     (\<exists>c. cache_get (cache ex_world) ''x.txt|3|1.0bbb'' (model_name ex_analyzer) = Inr c \<and> \<not> truthy c)"
  by (simp add: cache_get_def ex_world_def cache_init_def)

lemma ex_mime: "detect_mime ex_env [''d'', ''x.txt''] = ''text/plain''"
  by (simp add: detect_mime_def ex_env_def p_suffix_def p_name_def rfind_def)

lemma ex_timeout:
  "backend_step ex_env ex_analyzer (backend_calls ex_world) [''d'', ''x.txt'']
     (detect_mime ex_env [''d'', ''x.txt'']) = Inl (Exn ''TimeoutError'' ''timed out'')"
  by (simp add: backend_step_def ex_env_def ex_analyzer_def ex_world_def)

text \<open>
  C1. When the fingerprint is computed, the cache lookup gives nothing to return (so
  the backend step runs) and the backend step raises \<open>e\<close>, \<open>analyze\<close> returns a
  dict instead of raising: its category is \<open>other\<close>, its title the stem of the file
  name, its description ends with the text of \<open>e\<close>, and its tag list is empty.
\<close>

theorem analyze_degraded_result:
  assumes fp: "calculate (sha256 ev) (files w) p 65536 = Inr h"
    and miss: "has_cache an \<longrightarrow> (\<exists>c. cache_get (cache w) h (model_name an) = Inr c \<and> \<not> truthy c)"
    and raises: "backend_step ev an (backend_calls w) p (detect_mime ev p) = Inl e"
  shows "\<exists>d. fst (analyze ev an w p) = Inr d
           \<and> getitem d ''category'' = Inr (JStr ''other'')
           \<and> getitem d ''title'' = Inr (JStr (p_stem p))
           \<and> getitem d ''description'' = Inr (JStr (''Error analyzing file: '' @ str_exn e))
           \<and> sublist (str_exn e) (''Error analyzing file: '' @ str_exn e)
           \<and> getitem d ''tags'' = Inr (JArr [])"
proof -
  have "fst (analyze ev an w p) = Inr (degraded ev an p (detect_mime ev p) h e)"
    using analyze_backend_raises [OF assms] by simp
  moreover have "sublist (str_exn e) (''Error analyzing file: '' @ str_exn e)"
    unfolding sublist_def
    by (rule exI [of _ "''Error analyzing file: ''"], rule exI [of _ "[]"]) simp
  ultimately show ?thesis
    by (simp add: degraded_def)
qed

theorem analyze_degraded_result_witness:
  "\<exists>d. fst (analyze ex_env ex_analyzer ex_world [''d'', ''x.txt'']) = Inr d
      \<and> getitem d ''category'' = Inr (JStr ''other'')
      \<and> getitem d ''title'' = Inr (JStr ''x'')
      \<and> getitem d ''description'' = Inr (JStr ''Error analyzing file: timed out'')
      \<and> getitem d ''tags'' = Inr (JArr [])"
proof -
  have stem: "p_stem [''d'', ''x.txt''] = ''x''"
    by (simp add: p_stem_def p_name_def rfind_def)
  from analyze_degraded_result [OF ex_fingerprint ex_miss ex_timeout] stem
  show ?thesis by auto
qed

text \<open>
  C10. Under the same conditions the call leaves the cache (and the files) as they
  were and has made one backend call; a second call for the same file makes another
  backend call, and when that one answers, the second call returns the answer with
  its bookkeeping fields, not the placeholder.
\<close>

theorem degraded_result_not_cached:
  assumes fp: "calculate (sha256 ev) (files w) p 65536 = Inr h"
    and miss: "has_cache an \<longrightarrow> (\<exists>c. cache_get (cache w) h (model_name an) = Inr c \<and> \<not> truthy c)"
    and raises: "backend_step ev an (backend_calls w) p (detect_mime ev p) = Inl e"
  shows "cache (snd (analyze ev an w p)) = cache w
       \<and> files (snd (analyze ev an w p)) = files w
       \<and> backend_calls (snd (analyze ev an w p)) = Suc (backend_calls w)
       \<and> backend_calls (snd (analyze ev an (snd (analyze ev an w p)) p)) = Suc (Suc (backend_calls w))
       \<and> (\<forall>r r'. backend_step ev an (Suc (backend_calls w)) p (detect_mime ev p) = Inr r
                 \<and> add_metadata ev an (detect_mime ev p) h r = Inr r'
                 \<and> (has_cache an \<longrightarrow> fault (cache w) = None)
               \<longrightarrow> fst (analyze ev an (snd (analyze ev an w p)) p) = Inr r')"
proof -
  let ?w1 = "w\<lparr>backend_calls := Suc (backend_calls w)\<rparr>"
  have first: "snd (analyze ev an w p) = ?w1"
    using analyze_backend_raises [OF assms] by simp
  have fp1: "calculate (sha256 ev) (files ?w1) p 65536 = Inr h"
    using fp by simp
  have miss1: "has_cache an \<longrightarrow> (\<exists>c. cache_get (cache ?w1) h (model_name an) = Inr c \<and> \<not> truthy c)"
    using miss by simp
  have again: "backend_calls (snd (analyze ev an ?w1 p)) = Suc (Suc (backend_calls w))"
    using fp1 miss1
    by (auto simp: analyze_def analyze_try_def Let_def split: sum.splits prod.splits)
  have fresh: "fst (analyze ev an ?w1 p) = Inr r'"
    if "backend_step ev an (Suc (backend_calls w)) p (detect_mime ev p) = Inr r"
      and "add_metadata ev an (detect_mime ev p) h r = Inr r'"
      and "has_cache an \<longrightarrow> fault (cache w) = None" for r r'
    using analyze_backend_returns [OF fp1 miss1, of r r'] that by simp
  show ?thesis
    unfolding first using again fresh by auto
qed

theorem degraded_result_not_cached_witness:
  "cache (snd (analyze ex_env ex_analyzer ex_world [''d'', ''x.txt''])) = cache_init
   \<and> backend_calls (snd (analyze ex_env ex_analyzer ex_world [''d'', ''x.txt''])) = 1
   \<and> backend_calls (snd (analyze ex_env ex_analyzer
        (snd (analyze ex_env ex_analyzer ex_world [''d'', ''x.txt''])) [''d'', ''x.txt''])) = 2
   \<and> (\<exists>r. fst (analyze ex_env ex_analyzer
              (snd (analyze ex_env ex_analyzer ex_world [''d'', ''x.txt''])) [''d'', ''x.txt'']) = Inr r
          \<and> getitem r ''title'' = Inr (JStr ''Quarterly report'')
          \<and> getitem r ''file_hash'' = Inr (JStr ''x.txt|3|1.0bbb''))"
proof -
  have answer: "backend_step ex_env ex_analyzer (Suc (backend_calls ex_world)) [''d'', ''x.txt'']
                  (detect_mime ex_env [''d'', ''x.txt'']) = Inr ex_answer"
    by (simp add: backend_step_def ex_env_def ex_analyzer_def ex_world_def)
  have fields: "add_metadata ex_env ex_analyzer (detect_mime ex_env [''d'', ''x.txt''])
                  ''x.txt|3|1.0bbb'' ex_answer
                = Inr (JObj [(''title'', JStr ''Quarterly report''), (''category'', JStr ''document''),
                             (''tags'', JArr [JStr ''work'']), (''suggested_filename'', JStr ''report''),
                             (''mime_type'', JStr ''text/plain''),
                             (''file_hash'', JStr ''x.txt|3|1.0bbb''),
                             (''analyzed_at'', JStr ''2024-01-01T00:00:00''),
                             (''model'', JStr ''gemini-2.0-flash-exp'')])"
    by (subst ex_mime) (simp add: add_metadata_def ex_answer_def ex_env_def ex_analyzer_def)
  have avail: "has_cache ex_analyzer \<longrightarrow> fault (cache ex_world) = None"
    by (simp add: ex_world_def cache_init_def)
  from degraded_result_not_cached [OF ex_fingerprint ex_miss ex_timeout] answer fields avail
  show ?thesis
    by (simp add: ex_world_def)
qed

section \<open>Unfolding the model on an example\<close>

lemmas path_defs = p_name_def p_parent_def p_suffix_def p_stem_def p_join_def rfind_def exists_def
lemmas text_defs = encode_def encode_char_def str_nat.simps str_int_def digit_char_def
lemmas json_defs = dumps_str_def escape_char_def hex_digit_def
lemmas analyze_defs = analyze_def analyze_try_def calculate_def cache_get_def cache_set_def
  detect_mime_def backend_step_def add_metadata_def degraded_def cache_init_def
lemmas rename_defs = safe_rename_def os_rename_def strip_def isspace_def re_sub_reserved_def
  reserved_def numbered_def collide.simps
lemmas process_defs = process_file_def new_result_def process_try_def process_rename_def
  process_outputs_def embed_step_def mm_embed_metadata_def mm_create_json_sidecar_def
  p_with_suffix_def show_analysis_def declined_def skipped_def lower_char_def
lemmas batch_defs = process_batch_def completion_order_def collect_def future_result_def pause_def
lemmas ex_defs = ex_env_def ex_world_def ex_analyzer_def ex_config_def ex_answer_def

section \<open>Renaming\<close>

lemma collide_free: "\<not> (exists t np \<and> np \<noteq> fp) \<Longrightarrow> collide t fp sn np c = np"
  by (subst collide.simps) auto

lemma collide_taken:
  "exists t np \<and> np \<noteq> fp \<Longrightarrow>
     collide t fp sn np c = collide t fp sn (numbered fp sn c) (c + 1)"
  by (subst collide.simps) auto

lemma collide_result:
  "exists t np \<and> np \<noteq> fp \<Longrightarrow>
     \<exists>k\<ge>c. collide t fp sn np c = numbered fp sn k
          \<and> \<not> (exists t (numbered fp sn k) \<and> numbered fp sn k \<noteq> fp)
          \<and> (\<forall>j. c \<le> j \<and> j < k \<longrightarrow> exists t (numbered fp sn j) \<and> numbered fp sn j \<noteq> fp)"
proof (induction t fp sn np c rule: collide.induct)
  case (1 t fp sn np c)
  let ?q = "numbered fp sn c"
  from "1.prems" have step: "collide t fp sn np c = collide t fp sn ?q (c + 1)"
    by (rule collide_taken)
  show ?case
  proof (cases "exists t ?q \<and> ?q \<noteq> fp")
    case False
    then have "collide t fp sn ?q (c + 1) = ?q"
      by (rule collide_free)
    with step False show ?thesis
      by (intro exI [of _ c]) auto
  next
    case True
    from "1.IH" [OF "1.prems" True] obtain k where k: "c + 1 \<le> k"
      "collide t fp sn ?q (c + 1) = numbered fp sn k"
      "\<not> (exists t (numbered fp sn k) \<and> numbered fp sn k \<noteq> fp)"
      "\<forall>j. c + 1 \<le> j \<and> j < k \<longrightarrow> exists t (numbered fp sn j) \<and> numbered fp sn j \<noteq> fp"
      by blast
    have "\<forall>j. c \<le> j \<and> j < k \<longrightarrow> exists t (numbered fp sn j) \<and> numbered fp sn j \<noteq> fp"
    proof (intro allI impI)
      fix j assume j: "c \<le> j \<and> j < k"
      show "exists t (numbered fp sn j) \<and> numbered fp sn j \<noteq> fp"
      proof (cases "j = c")
        case True
        with \<open>exists t ?q \<and> ?q \<noteq> fp\<close> show ?thesis by simp
      next
        case False
        with j k(4) show ?thesis by simp
      qed
    qed
    with k step show ?thesis
      by (intro exI [of _ k]) auto
  qed
qed

lemma collide_final: "\<not> (exists t (collide t fp sn np c) \<and> collide t fp sn np c \<noteq> fp)"
proof (cases "exists t np \<and> np \<noteq> fp")
  case True
  from collide_result [OF True, of c sn] show ?thesis by auto
next
  case False
  then show ?thesis by (simp add: collide_free)
qed

text \<open>After a rename onto a free path, the destination holds what the source held.\<close>

lemma moved_lookup:
  "map_of t q = None \<Longrightarrow>
     map_of (map (\<lambda>(k, n). if prefix p k then (q @ drop (length p) k, n) else (k, n)) t) q
       = map_of t p"
proof (induction t)
  case Nil
  then show ?case by simp
next
  case (Cons x t)
  obtain k n where x: "x = (k, n)" by (cases x)
  from Cons.prems x have kq: "k \<noteq> q" and rest: "map_of t q = None"
    by (auto split: if_splits)
  have "q @ drop (length p) k = q \<longleftrightarrow> k = p" if "prefix p k"
    using that by (auto simp: prefix_def)
  with Cons.IH [OF rest] x kq show ?case
    by auto
qed

lemma os_rename_moves:
  "os_rename w p q = Inr t' \<Longrightarrow> \<not> exists (files w) q \<Longrightarrow> map_of t' q = map_of (files w) p"
  by (auto simp: os_rename_def exists_def moved_lookup split: if_splits)

text \<open>
  C8. For a non-empty suggestion with sanitized stem \<open>name\<close>: when the plain
  candidate \<open>name + suffix\<close> exists and is not the current file, the loop settles on
  \<open>name_k + suffix\<close> for the first \<open>k\<close> from 1 whose candidate is free or is the
  current file (every smaller \<open>k\<close> is taken by another file), the extension kept;
  otherwise it keeps the plain candidate. When the final candidate is the current
  path, \<open>safe_rename\<close> returns \<open>None\<close> and changes nothing; otherwise it returns
  the candidate, after moving the file there unless this is a dry run.
\<close>

theorem safe_rename_collision:
  assumes nonempty: "s \<noteq> []"
    and name: "name = strip (re_sub_reserved s)"
    and first: "first = p_join (p_parent p) (name @ p_suffix p)"
    and final: "final = collide (files w) p name first 1"
  shows "(exists (files w) first \<and> first \<noteq> p \<longrightarrow>
            (\<exists>k\<ge>1. final = p_parent p @ [name @ ''_'' @ str_nat k @ p_suffix p]
                 \<and> (\<forall>j. 1 \<le> j \<and> j < k \<longrightarrow>
                        exists (files w) (numbered p name j) \<and> numbered p name j \<noteq> p)))
       \<and> (\<not> (exists (files w) first \<and> first \<noteq> p) \<longrightarrow> final = first)
       \<and> (\<not> exists (files w) final \<or> final = p)
       \<and> (final = p \<longrightarrow> safe_rename cfg w p (JStr s) = (Inr None, w))
       \<and> (final \<noteq> p \<and> dry_run cfg \<longrightarrow> safe_rename cfg w p (JStr s) = (Inr (Some final), w))
       \<and> (final \<noteq> p \<and> \<not> dry_run cfg \<longrightarrow>
            (\<forall>t'. os_rename w p final = Inr t' \<longrightarrow>
                   safe_rename cfg w p (JStr s) = (Inr (Some final), w\<lparr>files := t'\<rparr>)
                   \<and> map_of t' final = map_of (files w) p)
            \<and> (\<forall>e. os_rename w p final = Inl e \<longrightarrow> safe_rename cfg w p (JStr s) = (Inl e, w)))"
proof -
  have numbered_form: "\<exists>k\<ge>1. final = p_parent p @ [name @ ''_'' @ str_nat k @ p_suffix p]
         \<and> (\<forall>j. 1 \<le> j \<and> j < k \<longrightarrow> exists (files w) (numbered p name j) \<and> numbered p name j \<noteq> p)"
    if taken: "exists (files w) first \<and> first \<noteq> p"
    using collide_result [OF taken, of 1 name] unfolding final numbered_eq by blast
  have plain: "final = first" if "\<not> (exists (files w) first \<and> first \<noteq> p)"
    unfolding final using that by (rule collide_free)
  have free: "\<not> exists (files w) final \<or> final = p"
    unfolding final using collide_final [of "files w" p name first 1] by blast
  have run: "safe_rename cfg w p (JStr s) =
               (if final = p then (Inr None, w)
                else if \<not> dry_run cfg then
                  (case os_rename w p final of
                     Inl e \<Rightarrow> (Inl e, w)
                   | Inr t' \<Rightarrow> (Inr (Some final), w\<lparr>files := t'\<rparr>))
                else (Inr (Some final), w))"
    unfolding name first final using nonempty
    by (simp add: safe_rename_def Let_def split: sum.splits)
  have moved: "map_of t' final = map_of (files w) p"
    if "final \<noteq> p" and "os_rename w p final = Inr t'" for t'
    using os_rename_moves [OF that(2)] free that(1) by simp
  have noop: "final = p \<longrightarrow> safe_rename cfg w p (JStr s) = (Inr None, w)"
    by (simp add: run)
  have dry: "final \<noteq> p \<and> dry_run cfg \<longrightarrow> safe_rename cfg w p (JStr s) = (Inr (Some final), w)"
    by (simp add: run)
  have wet: "final \<noteq> p \<and> \<not> dry_run cfg \<longrightarrow>
            (\<forall>t'. os_rename w p final = Inr t' \<longrightarrow>
                   safe_rename cfg w p (JStr s) = (Inr (Some final), w\<lparr>files := t'\<rparr>)
                   \<and> map_of t' final = map_of (files w) p)
            \<and> (\<forall>e. os_rename w p final = Inl e \<longrightarrow> safe_rename cfg w p (JStr s) = (Inl e, w))"
    using moved by (simp add: run)
  from numbered_form plain free noop dry wet show ?thesis
    by blast
qed


text \<open>The example: \<open>report.txt\<close> exists; two more files are given the stem \<open>report\<close>.\<close>

lemma ex_second:
  "safe_rename ex_config ex_world [''d'', ''x.txt''] (JStr ''report'')
     = (Inr (Some [''d'', ''report_1.txt'']),
        ex_world\<lparr>files :=
          [([''d'', ''report.txt''], File \<lparr>st_mtime = ''1.0'', content = ''aaa''\<rparr>),
           ([''d'', ''report_1.txt''], File \<lparr>st_mtime = ''1.0'', content = ''bbb''\<rparr>),
           ([''d'', ''y.txt''], File \<lparr>st_mtime = ''1.0'', content = ''ccc''\<rparr>),
           ([''locked'', ''z.txt''], File \<lparr>st_mtime = ''1.0'', content = ''ddd''\<rparr>)]\<rparr>)"
  by (simp add: rename_defs path_defs text_defs ex_defs Let_def)

theorem safe_rename_collision_witness:
  "fst (safe_rename ex_config ex_world [''d'', ''x.txt''] (JStr ''report''))
     = Inr (Some [''d'', ''report_1.txt''])
   \<and> fst (safe_rename ex_config
            (snd (safe_rename ex_config ex_world [''d'', ''x.txt''] (JStr ''report'')))
            [''d'', ''y.txt''] (JStr ''report''))
     = Inr (Some [''d'', ''report_2.txt''])
   \<and> safe_rename ex_config ex_world [''d'', ''report.txt''] (JStr ''report'') = (Inr None, ex_world)"
proof -
  let ?w1 = "snd (safe_rename ex_config ex_world [''d'', ''x.txt''] (JStr ''report''))"
  have stem: "strip (re_sub_reserved ''report'') = ''report''"
    by (simp add: rename_defs)
  have third: "collide (files ?w1) [''d'', ''y.txt''] ''report''
                 (p_join (p_parent [''d'', ''y.txt'']) (''report'' @ p_suffix [''d'', ''y.txt''])) 1
               = [''d'', ''report_2.txt'']"
    unfolding ex_second by (simp add: rename_defs path_defs text_defs ex_defs)
  have moved: "\<exists>t'. os_rename ?w1 [''d'', ''y.txt''] [''d'', ''report_2.txt''] = Inr t'"
    unfolding ex_second by (simp add: rename_defs path_defs ex_defs)
  have same: "collide (files ex_world) [''d'', ''report.txt''] ''report''
                (p_join (p_parent [''d'', ''report.txt'']) (''report'' @ p_suffix [''d'', ''report.txt''])) 1
              = [''d'', ''report.txt'']"
    by (simp add: rename_defs path_defs ex_defs)
  have dry: "\<not> dry_run ex_config"
    by (simp add: ex_config_def)
  have "fst (safe_rename ex_config ?w1 [''d'', ''y.txt''] (JStr ''report''))
          = Inr (Some [''d'', ''report_2.txt''])"
    using safe_rename_collision [of "''report''" "''report''" _ "[''d'', ''y.txt'']" _ ?w1 ex_config,
        OF _ stem [symmetric] refl third [symmetric]] moved dry
    by auto
  moreover have "safe_rename ex_config ex_world [''d'', ''report.txt''] (JStr ''report'')
          = (Inr None, ex_world)"
    using safe_rename_collision [of "''report''" "''report''" _ "[''d'', ''report.txt'']" _ ex_world
        ex_config, OF _ stem [symmetric] refl same [symmetric]]
    by simp
  ultimately show ?thesis
    by (simp add: ex_second)
qed

text \<open>
  C5 (where the code departs from it). A suggestion of three spaces is not empty, so
  the guard at the top lets it pass; its sanitized stem is empty, and the file is
  renamed to its bare extension.
\<close>

theorem safe_rename_blank_suggestion:
  "strip (re_sub_reserved ''   '') = []
   \<and> fst (safe_rename ex_config ex_world [''d'', ''x.txt''] (JStr ''   ''))
       = Inr (Some [''d'', ''.txt''])
   \<and> map_of (files (snd (safe_rename ex_config ex_world [''d'', ''x.txt''] (JStr ''   ''))))
        [''d'', ''.txt''] = Some (File \<lparr>st_mtime = ''1.0'', content = ''bbb''\<rparr>)
   \<and> map_of (files (snd (safe_rename ex_config ex_world [''d'', ''x.txt''] (JStr ''   ''))))
        [''d'', ''x.txt''] = None"
  by (simp add: rename_defs path_defs text_defs ex_defs Let_def)

section \<open>Dry runs\<close>

lemma analyze_files: "files (snd (analyze ev an w p)) = files w"
  by (auto simp: analyze_def analyze_try_def Let_def split: sum.splits prod.splits if_splits)

lemma safe_rename_dry: "dry_run cfg \<Longrightarrow> safe_rename cfg w p sn = (r, w') \<Longrightarrow> w' = w"
  by (auto simp: safe_rename_def Let_def split: json.splits if_splits)

lemma process_outputs_dry:
  "dry_run cfg \<Longrightarrow> process_outputs cfg ev w p md r = (x, r', w') \<Longrightarrow> w' = w"
  by (simp add: process_outputs_def embed_step_def)

lemma process_rename_dry:
  "dry_run cfg \<Longrightarrow> process_rename cfg ev w p md r = (x, r', w') \<Longrightarrow> w' = w"
  by (auto simp: process_rename_def split: sum.splits bool.splits prod.splits option.splits if_splits
      dest: safe_rename_dry process_outputs_dry)

lemma process_try_dry:
  "dry_run cfg \<Longrightarrow> process_try cfg ev an w p r = (x, r', w') \<Longrightarrow> files w' = files w"
  using analyze_files [of ev an w p]
  by (auto simp: process_try_def Let_def split: sum.splits prod.splits option.splits if_splits
      dest: process_rename_dry)

lemma process_file_dry:
  "dry_run cfg \<Longrightarrow> files (snd (process_file cfg ev an w p)) = files w"
  by (auto simp: process_file_def split: prod.splits option.splits dest: process_try_dry)

lemma safe_rename_reports:
  "dry_run cfg \<Longrightarrow> fst (safe_rename (cfg\<lparr>dry_run := False\<rparr>) w p sn) = Inr r
     \<Longrightarrow> fst (safe_rename cfg w p sn) = Inr r"
  by (auto simp: safe_rename_def Let_def split: json.splits if_splits sum.splits)

text \<open>
  C7. In a dry run \<open>process_file\<close> leaves the file table as it was (nothing renamed,
  embedded or written), and \<open>safe_rename\<close> changes nothing and still returns the
  destination: the path the loop settles on, which is also what the call returns
  when it does rename.
\<close>

theorem dry_run_no_mutation:
  assumes "dry_run cfg"
  shows "files (snd (process_file cfg ev an w p)) = files w
       \<and> snd (safe_rename cfg w p sn) = w
       \<and> (\<forall>r. fst (safe_rename (cfg\<lparr>dry_run := False\<rparr>) w p sn) = Inr r
              \<longrightarrow> fst (safe_rename cfg w p sn) = Inr r)
       \<and> (\<forall>s. s \<noteq> []
              \<and> collide (files w) p (strip (re_sub_reserved s))
                  (p_join (p_parent p) (strip (re_sub_reserved s) @ p_suffix p)) 1 \<noteq> p
              \<longrightarrow> fst (safe_rename cfg w p (JStr s))
                  = Inr (Some (collide (files w) p (strip (re_sub_reserved s))
                          (p_join (p_parent p) (strip (re_sub_reserved s) @ p_suffix p)) 1)))"
proof -
  have "snd (safe_rename cfg w p sn) = w"
    using safe_rename_dry [OF assms, of w p sn] by (cases "safe_rename cfg w p sn") simp
  moreover have "fst (safe_rename cfg w p (JStr s))
                  = Inr (Some (collide (files w) p (strip (re_sub_reserved s))
                          (p_join (p_parent p) (strip (re_sub_reserved s) @ p_suffix p)) 1))"
    if "s \<noteq> []"
      and "collide (files w) p (strip (re_sub_reserved s))
             (p_join (p_parent p) (strip (re_sub_reserved s) @ p_suffix p)) 1 \<noteq> p" for s
    using that assms by (simp add: safe_rename_def Let_def)
  ultimately show ?thesis
    using process_file_dry [OF assms] safe_rename_reports [OF assms] by blast
qed


theorem dry_run_no_mutation_witness:
  "files (snd (process_file (ex_config\<lparr>rename_files := True, dry_run := True\<rparr>) ex_env ex_analyzer
                 (ex_world\<lparr>backend_calls := 1\<rparr>) [''d'', ''x.txt'']))
     = files (ex_world\<lparr>backend_calls := 1\<rparr>)
   \<and> renamed_to (fst (process_file (ex_config\<lparr>rename_files := True, dry_run := True\<rparr>) ex_env
                        ex_analyzer (ex_world\<lparr>backend_calls := 1\<rparr>) [''d'', ''x.txt'']))
     = Some [''d'', ''report_1.txt'']
   \<and> safe_rename (ex_config\<lparr>rename_files := True, dry_run := True\<rparr>) ex_world [''d'', ''x.txt'']
         (JStr ''report'')
     = (Inr (Some [''d'', ''report_1.txt'']), ex_world)"
proof -
  let ?cfg = "ex_config\<lparr>rename_files := True, dry_run := True\<rparr>"
  have dry: "dry_run ?cfg"
    by simp
  have wet: "fst (safe_rename (?cfg\<lparr>dry_run := False\<rparr>) ex_world [''d'', ''x.txt''] (JStr ''report''))
               = Inr (Some [''d'', ''report_1.txt''])"
    by (simp add: rename_defs path_defs text_defs ex_defs Let_def)
  have reported: "renamed_to (fst (process_file ?cfg ex_env ex_analyzer (ex_world\<lparr>backend_calls := 1\<rparr>)
                     [''d'', ''x.txt''])) = Some [''d'', ''report_1.txt'']"
    by (simp add: process_defs analyze_defs rename_defs path_defs text_defs json_defs ex_defs Let_def)
  from dry_run_no_mutation [OF dry, of ex_env ex_analyzer "ex_world\<lparr>backend_calls := 1\<rparr>"
      "[''d'', ''x.txt'']"]
    dry_run_no_mutation [OF dry, of _ _ ex_world "[''d'', ''x.txt'']" "JStr ''report''"] wet reported
  show ?thesis
    by (simp add: prod_eq_iff)
qed

section \<open>Batches\<close>

lemma process_outputs_result:
  "process_outputs cfg ev w p md r = (x, r', w') \<Longrightarrow>
     o_file r' = o_file r \<and> (x = None \<longrightarrow> success r') \<and> (x \<noteq> None \<longrightarrow> success r' = success r)"
  by (auto simp: process_outputs_def Let_def split: if_splits sum.splits)

lemma process_rename_result:
  "process_rename cfg ev w p md r = (x, r', w') \<Longrightarrow>
     o_file r' = o_file r \<and> (x = None \<longrightarrow> success r') \<and> (x \<noteq> None \<longrightarrow> success r' = success r)"
  by (auto simp: process_rename_def
      split: if_splits sum.splits bool.splits prod.splits option.splits
      dest!: process_outputs_result)

lemma process_try_result:
  "process_try cfg ev an w p r = (x, r', w') \<Longrightarrow>
     o_file r' = o_file r
     \<and> (x = None \<and> \<not> skipped cfg ev p \<longrightarrow> success r')
     \<and> (x \<noteq> None \<longrightarrow> success r' = success r)"
  by (auto simp: process_try_def Let_def skipped_def
      split: if_splits sum.splits prod.splits option.splits
      dest!: process_rename_result)

lemma process_file_o_file: "o_file (fst (process_file cfg ev an w p)) = p"
  by (auto simp: process_file_def new_result_def split: prod.splits option.splits
      dest!: process_try_result)



lemma mset_completion_order: "mset (completion_order n finished) = mset [0..<n]"
  by (simp add: completion_order_def)

lemma set_completion_order: "set (completion_order n finished) = {0..<n}"
proof -
  have "set (completion_order n finished) = set [0..<n]"
    by (rule mset_eq_setD) (rule mset_completion_order)
  then show ?thesis by simp
qed

lemma length_completion_order: "length (completion_order n finished) = n"
proof -
  have "length (completion_order n finished) = length [0..<n]"
    by (rule mset_eq_length) (rule mset_completion_order)
  then show ?thesis by simp
qed

lemma mset_nth_completion_order:
  "mset (map ((!) paths) (completion_order (length paths) finished)) = mset paths"
proof -
  have "mset (map ((!) paths) (completion_order (length paths) finished))
          = image_mset ((!) paths) (mset (completion_order (length paths) finished))"
    by simp
  also have "\<dots> = image_mset ((!) paths) (mset [0..<length paths])"
    by (simp only: mset_completion_order)
  also have "\<dots> = mset (map ((!) paths) [0..<length paths])"
    by simp
  also have "map ((!) paths) [0..<length paths] = paths"
    by (rule map_nth)
  finally show ?thesis .
qed

text \<open>What one turn of the loop appends, by what the pause does.\<close>

lemma collect_quiet:
  "pause cfg ev = None \<Longrightarrow>
     collect cfg ev p (future_result cfg ev an w p) = [Returned (fst (process_file cfg ev an w p))]"
  by (simp add: collect_def future_result_def)

lemma collect_raising:
  "pause cfg ev = Some e \<Longrightarrow>
     collect cfg ev p (future_result cfg ev an w p)
       = [Returned (fst (process_file cfg ev an w p)), Failed p (str_exn e)]"
  by (simp add: collect_def future_result_def)

lemma files_collect_quiet:
  "pause cfg ev = None \<Longrightarrow>
     map e_file (concat (map (\<lambda>i. collect cfg ev (paths ! i)
                                  (future_result cfg ev an (seen i) (paths ! i))) order))
       = map ((!) paths) order"
  by (induction order) (simp_all add: collect_quiet process_file_o_file)

lemma files_collect_raising:
  "pause cfg ev = Some e \<Longrightarrow>
     map e_file (concat (map (\<lambda>i. collect cfg ev (paths ! i)
                                  (future_result cfg ev an (seen i) (paths ! i))) order))
       = concat (map (\<lambda>i. [paths ! i, paths ! i]) order)"
  by (induction order) (simp_all add: collect_raising process_file_o_file)

lemma mset_concat_twice: "mset (concat (map (\<lambda>i. [f i, f i]) xs)) = mset (map f xs) + mset (map f xs)"
  by (induction xs) simp_all

lemma length_concat_twice: "length (concat (map (\<lambda>i. [f i, f i]) xs)) = 2 * length xs"
  by (induction xs) simp_all

text \<open>
  C3 (where the code departs from it). With a positive \<open>max_workers\<close> the batch
  returns its list. When the pause after a result raises nothing, the list has one
  dict per input path, in completion order. When the pause raises (a delay
  \<open>time.sleep\<close> refuses, or a value that does not compare with \<open>0\<close>), the
  \<open>except\<close> clause adds a second dict for the file whose result was just
  appended: the list has two dicts per input path, the second a failure.
\<close>

theorem process_batch_entries_per_path:
  assumes workers: "0 < max_workers cfg"
  shows "\<exists>es. process_batch cfg ev an seen paths finished = Inr es
          \<and> (pause cfg ev = None \<longrightarrow>
                 length es = length paths
               \<and> map e_file es = map ((!) paths) (completion_order (length paths) finished)
               \<and> mset (map e_file es) = mset paths)
          \<and> (\<forall>e. pause cfg ev = Some e \<longrightarrow>
                 length es = 2 * length paths
               \<and> map e_file es
                   = concat (map (\<lambda>i. [paths ! i, paths ! i]) (completion_order (length paths) finished))
               \<and> mset (map e_file es) = mset paths + mset paths
               \<and> (\<forall>i<length paths. Failed (paths ! i) (str_exn e) \<in> set es))"
proof -
  let ?order = "completion_order (length paths) finished"
  let ?es = "concat (map (\<lambda>i. collect cfg ev (paths ! i)
                               (future_result cfg ev an (seen i) (paths ! i))) ?order)"
  have batch: "process_batch cfg ev an seen paths finished = Inr ?es"
    using workers by (simp add: process_batch_def)
  have quiet: "length ?es = length paths \<and> map e_file ?es = map ((!) paths) ?order
               \<and> mset (map e_file ?es) = mset paths"
    if none: "pause cfg ev = None"
  proof -
    have files: "map e_file ?es = map ((!) paths) ?order"
      using none by (rule files_collect_quiet)
    then have "length (map e_file ?es) = length (map ((!) paths) ?order)"
      by simp
    then have "length ?es = length paths"
      by (simp add: length_completion_order)
    moreover have "mset (map e_file ?es) = mset paths"
      unfolding files by (rule mset_nth_completion_order)
    ultimately show ?thesis
      using files by simp
  qed
  have raising: "length ?es = 2 * length paths
               \<and> map e_file ?es = concat (map (\<lambda>i. [paths ! i, paths ! i]) ?order)
               \<and> mset (map e_file ?es) = mset paths + mset paths
               \<and> (\<forall>i<length paths. Failed (paths ! i) (str_exn e) \<in> set ?es)"
    if some: "pause cfg ev = Some e" for e
  proof -
    have files: "map e_file ?es = concat (map (\<lambda>i. [paths ! i, paths ! i]) ?order)"
      using some by (rule files_collect_raising)
    then have "length (map e_file ?es) = length (concat (map (\<lambda>i. [paths ! i, paths ! i]) ?order))"
      by simp
    then have len: "length ?es = 2 * length paths"
      by (simp add: length_concat_twice length_completion_order)
    have "mset (map e_file ?es) = mset (map ((!) paths) ?order) + mset (map ((!) paths) ?order)"
      unfolding files by (rule mset_concat_twice)
    then have ms: "mset (map e_file ?es) = mset paths + mset paths"
      by (simp only: mset_nth_completion_order)
    have "Failed (paths ! i) (str_exn e) \<in> set ?es" if "i < length paths" for i
    proof -
      from that have "i \<in> set ?order"
        by (simp add: set_completion_order)
      moreover have "Failed (paths ! i) (str_exn e)
                       \<in> set (collect cfg ev (paths ! i) (future_result cfg ev an (seen i) (paths ! i)))"
        by (simp add: collect_raising [OF some])
      ultimately show ?thesis
        by auto
    qed
    then have "\<forall>i<length paths. Failed (paths ! i) (str_exn e) \<in> set ?es"
      by simp
    with len files ms show ?thesis
      by (intro conjI)
  qed
  have "pause cfg ev = None \<longrightarrow>
          length ?es = length paths \<and> map e_file ?es = map ((!) paths) ?order
          \<and> mset (map e_file ?es) = mset paths"
    using quiet by (rule impI)
  moreover have "\<forall>e. pause cfg ev = Some e \<longrightarrow>
          length ?es = 2 * length paths
          \<and> map e_file ?es = concat (map (\<lambda>i. [paths ! i, paths ! i]) ?order)
          \<and> mset (map e_file ?es) = mset paths + mset paths
          \<and> (\<forall>i<length paths. Failed (paths ! i) (str_exn e) \<in> set ?es)"
    using raising by (intro allI impI)
  ultimately show ?thesis
    using batch by (intro exI [of _ ?es] conjI)
qed

text \<open>
  The example batch with \<open>rate_limit_delay = inf\<close> in the TOML file: \<open>inf > 0\<close>
  holds and \<open>time.sleep(inf)\<close> raises \<open>OverflowError\<close> after each result, so two
  paths give four dicts, every second one a failure carrying the text of that error.
\<close>

theorem process_batch_entries_per_path_witness:
  "0 < max_workers (ex_config\<lparr>rate_limit_delay := JFloat ''inf''\<rparr>)
   \<and> pause (ex_config\<lparr>rate_limit_delay := JFloat ''inf''\<rparr>) ex_env
       = Some (Exn ''OverflowError'' ''timestamp out of range for platform time_t'')
   \<and> (\<exists>es. process_batch (ex_config\<lparr>rate_limit_delay := JFloat ''inf''\<rparr>) ex_env ex_analyzer
                (\<lambda>i. ex_world) [[''d'', ''x.txt''], [''d'', ''y.txt'']] [1, 0] = Inr es
          \<and> length es = 4
          \<and> map e_file es = [[''d'', ''y.txt''], [''d'', ''y.txt''], [''d'', ''x.txt''], [''d'', ''x.txt'']]
          \<and> Failed [''d'', ''x.txt''] ''timestamp out of range for platform time_t'' \<in> set es
          \<and> Failed [''d'', ''y.txt''] ''timestamp out of range for platform time_t'' \<in> set es)
   \<and> pause ex_config ex_env = None
   \<and> (\<exists>es. process_batch ex_config ex_env ex_analyzer
                (\<lambda>i. ex_world) [[''d'', ''x.txt''], [''d'', ''y.txt'']] [1, 0] = Inr es
          \<and> length es = 2
          \<and> map e_file es = [[''d'', ''y.txt''], [''d'', ''x.txt'']])"
proof -
  let ?cfg = "ex_config\<lparr>rate_limit_delay := JFloat ''inf''\<rparr>"
  let ?paths = "[[''d'', ''x.txt''], [''d'', ''y.txt'']]"
  let ?e = "Exn ''OverflowError'' ''timestamp out of range for platform time_t''"
  have workers: "0 < max_workers ?cfg" "0 < max_workers ex_config"
    by (simp_all add: ex_config_def)
  have raising: "pause ?cfg ex_env = Some ?e"
    by (simp add: pause_def ex_env_def)
  have quiet: "pause ex_config ex_env = None"
    by (simp add: pause_def ex_env_def ex_config_def)
  have order: "completion_order (length ?paths) [1, 0] = [1, 0]"
    by (simp add: completion_order_def upt_rec)
  from process_batch_entries_per_path [OF workers(1), of ex_env ex_analyzer "\<lambda>i. ex_world" ?paths "[1, 0]"]
  obtain es where es: "process_batch ?cfg ex_env ex_analyzer (\<lambda>i. ex_world) ?paths [1, 0] = Inr es"
    "\<forall>e. pause ?cfg ex_env = Some e \<longrightarrow>
                 length es = 2 * length ?paths
               \<and> map e_file es
                   = concat (map (\<lambda>i. [?paths ! i, ?paths ! i]) (completion_order (length ?paths) [1, 0]))
               \<and> mset (map e_file es) = mset ?paths + mset ?paths
               \<and> (\<forall>i<length ?paths. Failed (?paths ! i) (str_exn e) \<in> set es)"
    by (elim exE conjE) (rule that)
  from es(2) raising have doubled: "length es = 2 * length ?paths"
    "map e_file es = concat (map (\<lambda>i. [?paths ! i, ?paths ! i]) (completion_order (length ?paths) [1, 0]))"
    "\<forall>i<length ?paths. Failed (?paths ! i) (str_exn ?e) \<in> set es"
    by blast+
  from doubled(3) [rule_format, of 0] doubled(3) [rule_format, of 1]
  have failed: "Failed [''d'', ''x.txt''] ''timestamp out of range for platform time_t'' \<in> set es"
    "Failed [''d'', ''y.txt''] ''timestamp out of range for platform time_t'' \<in> set es"
    by simp_all
  have first: "\<exists>es. process_batch ?cfg ex_env ex_analyzer (\<lambda>i. ex_world) ?paths [1, 0] = Inr es
          \<and> length es = 4
          \<and> map e_file es = [[''d'', ''y.txt''], [''d'', ''y.txt''], [''d'', ''x.txt''], [''d'', ''x.txt'']]
          \<and> Failed [''d'', ''x.txt''] ''timestamp out of range for platform time_t'' \<in> set es
          \<and> Failed [''d'', ''y.txt''] ''timestamp out of range for platform time_t'' \<in> set es"
    using es(1) doubled(1,2) failed unfolding order by (intro exI [of _ es]) simp
  from process_batch_entries_per_path [OF workers(2), of ex_env ex_analyzer "\<lambda>i. ex_world" ?paths "[1, 0]"]
  obtain es' where es': "process_batch ex_config ex_env ex_analyzer (\<lambda>i. ex_world) ?paths [1, 0] = Inr es'"
    "pause ex_config ex_env = None \<longrightarrow>
                 length es' = length ?paths
               \<and> map e_file es' = map ((!) ?paths) (completion_order (length ?paths) [1, 0])
               \<and> mset (map e_file es') = mset ?paths"
    by (elim exE conjE) (rule that)
  from es'(2) quiet have single: "length es' = length ?paths"
    "map e_file es' = map ((!) ?paths) (completion_order (length ?paths) [1, 0])"
    by blast+
  have second: "\<exists>es. process_batch ex_config ex_env ex_analyzer (\<lambda>i. ex_world) ?paths [1, 0] = Inr es
          \<and> length es = 2
          \<and> map e_file es = [[''d'', ''y.txt''], [''d'', ''x.txt'']]"
    using es'(1) single unfolding order by (intro exI [of _ es']) simp
  from workers(1) raising first quiet second show ?thesis
    by (intro conjI)
qed

section \<open>Fault isolation\<close>

lemma length_p_suffix: "length (p_suffix p) \<le> length (p_name p)"
  by (simp add: p_suffix_def Let_def)

lemma name_without_suffix:
  "take (length (p_name p) - length (p_suffix p)) (p_name p) @ p_suffix p = p_name p"
proof (cases "p_suffix p = []")
  case True
  then show ?thesis by simp
next
  case False
  then obtain i where i: "p_suffix p = drop i (p_name p)" "i < length (p_name p)"
    by (auto simp: p_suffix_def Let_def split: if_splits)
  then show ?thesis by simp
qed

lemma sidecar_path:
  "p_name p \<noteq> [] \<Longrightarrow>
     p_with_suffix p (p_suffix p @ ''.json'') = Inr (p_parent p @ [p_name p @ ''.json''])"
  using name_without_suffix [of p] by (simp add: p_with_suffix_def Let_def)











end
